theory Spec2Isabelle
  imports Complex_Main "HOL-Library.Log_Nat"
begin

section \<open>JavaScript numbers\<close>

text \<open>
  Every amount is stored as a \<^verbatim>\<open>Decimal128\<close>, read with \<^verbatim>\<open>parseFloat(x.toString())\<close>,
  combined with the arithmetic of JavaScript numbers and written back with
  \<^verbatim>\<open>Decimal128.fromString(n.toString())\<close>. A stored amount is a rational here (a decimal
  is one). A JavaScript number is a double: \<open>fl x\<close> is the double nearest to \<open>x\<close>, with
  53 bits of mantissa and ties to the even mantissa; \<open>ilog2 x\<close> is the exponent of a
  positive \<open>x\<close>, and \<open>rne\<close> rounds to the nearest integer, ties to even. Reading a stored
  amount rounds it, every operation rounds its exact result, and a literal such as
  \<^verbatim>\<open>0.015\<close> is the double nearest to it. Writing a number stores the shortest decimal that
  reads back as that number; the model stores the number itself, which reads back the
  same. A number that is passed to a method (\<^verbatim>\<open>repayDebt(amount)\<close>) is a double as well:
  the callers pass \<open>fl x\<close>. The exponent is not bounded: beyond the range of doubles
  (\<^verbatim>\<open>Infinity\<close> above 1.8e308, zero below 4.9e-324) the model keeps rounding to 53 bits.
\<close>

definition ilog2 :: "rat \<Rightarrow> int" where
  "ilog2 x = (if 1 \<le> x then bitlen \<lfloor>x\<rfloor> - 1 else - bitlen (\<lceil>1 / x\<rceil> - 1))"

definition rne :: "rat \<Rightarrow> int" where
  "rne y = (let f = \<lfloor>y\<rfloor>; r = y - of_int f
            in if r < 1 / 2 then f else if 1 / 2 < r then f + 1
               else if even f then f else f + 1)"

definition fl :: "rat \<Rightarrow> rat" where
  "fl x = (if x = 0 then 0
           else let q = 2 powi (ilog2 \<bar>x\<bar> - 52)
                in sgn x * of_int (rne (\<bar>x\<bar> / q)) * q)"

definition parseFloat :: "rat \<Rightarrow> rat" where
  "parseFloat x = fl x"

definition js_add :: "rat \<Rightarrow> rat \<Rightarrow> rat" where
  "js_add a b = fl (a + b)"

definition js_sub :: "rat \<Rightarrow> rat \<Rightarrow> rat" where
  "js_sub a b = fl (a - b)"

definition js_mul :: "rat \<Rightarrow> rat \<Rightarrow> rat" where
  "js_mul a b = fl (a * b)"

section \<open>Data model\<close>

text \<open>
  The documents of the three collections (\<^verbatim>\<open>User\<close>, \<^verbatim>\<open>Circle\<close>, \<^verbatim>\<open>BackstopReserve\<close>)
  are records. Document identifiers and timestamps are natural numbers; the trust score
  and the counters are integers (they stay far below the 53 bits of a double).
\<close>

type_synonym uid = nat
type_synonym cid = nat
type_synonym time = nat

datatype user_tier = Bronze | Silver | Gold

text \<open>\<^verbatim>\<open>USER_STATUSES = ['Active', 'Frozen', 'Blacklisted']\<close>\<close>

datatype user_status = Active | Frozen | Blacklisted

text \<open>\<^verbatim>\<open>enum: ['Excessive Debt', 'Fraud', 'Manual Review', null]\<close>; \<open>null\<close> is \<open>None\<close>.\<close>

datatype blacklist_reason = Excessive_Debt | Fraud | Manual_Review

record wallet =
  availableBalance :: rat
  vaultBalance :: rat
  debtBalance :: rat

record user =
  fullName :: string
  wallet :: wallet
  trustScore :: int
  userTier :: user_tier
  status :: user_status
  activeCircles :: "cid list"
  blacklistedAt :: "time option"
  blacklistReason :: "blacklist_reason option"

datatype payment_status = Pending | Paid | Defaulted | Excused

record member =
  member_user :: uid
  paymentStatus :: payment_status
  lastPaymentDate :: "time option"
  totalContributionsMade :: nat

text \<open>
  The circle's \<^verbatim>\<open>status\<close> field is \<open>circle_status\<close> here, and its values
  \<^verbatim>\<open>'Active'\<close> and \<^verbatim>\<open>'Defaulted'\<close> are \<open>Circle_Active\<close> and \<open>Circle_Defaulted\<close>,
  apart from the user's and the member's values of the same name.
\<close>

datatype circle_state = Forming | Circle_Active | Paused | Completed | Circle_Defaulted

record circle =
  contributionAmount :: rat
  totalPot :: rat
  payoutOrder :: "uid list"
  currentTurn :: nat
  cycleCount :: nat
  members :: "member list"
  backstopBalance :: rat
  totalFeesCollected :: rat
  circle_status :: circle_state
  lastPayoutDate :: "time option"

record loan =
  loan_circle :: cid
  amount :: rat
  defaultedUser :: uid
  recovered :: bool
  createdAt :: time

record reserve =
  balance :: rat
  totalDeployed :: rat
  activeLoans :: "loan list"

text \<open>
  The database: users and circles by identifier, and the reserve that
  \<^verbatim>\<open>BackstopReserve.findOne()\<close> returns, if there is one.
\<close>

record db =
  users :: "uid \<rightharpoonup> user"
  circles :: "cid \<rightharpoonup> circle"
  backstop :: "reserve option"

text \<open>
  Every \<^verbatim>\<open>throw\<close> of the source is a value. The messages are
  \<^verbatim>\<open>'Circle not found'\<close>, \<^verbatim>\<open>'Circle is not active'\<close>, \<^verbatim>\<open>'Recipient not found'\<close>,
  \<^verbatim>\<open>'Backstop insufficient. Need ..., have .... CirclePaused.'\<close> (with the shortfall and the
  reserve balance), \<^verbatim>\<open>'Insufficient funds'\<close> and \<^verbatim>\<open>'Insufficient available balance'\<close>
  (both \<open>InsufficientFunds\<close>), \<^verbatim>\<open>'Payment exceeds debt'\<close>, \<^verbatim>\<open>'Not a member of this circle'\<close>,
  \<^verbatim>\<open>'Already paid this cycle'\<close>; \<open>TypeError\<close> is a property read on \<^verbatim>\<open>null\<close>, and
  \<open>ValidationError\<close> is what a save throws when a schema validator fails.
\<close>

datatype error =
    CircleNotFound
  | CircleNotActive
  | RecipientNotFound
  | ReserveInsufficient rat rat
  | InsufficientFunds
  | OverpaymentRejected
  | NotAMember
  | AlreadyPaid
  | TypeError
  | ValidationError

section \<open>The user schema\<close>

definition DEBT_BLACKLIST_THRESHOLD :: rat where
  "DEBT_BLACKLIST_THRESHOLD = 500000"

definition TRUST_SCORE_min :: int where
  "TRUST_SCORE_min = 300"

definition TRUST_SCORE_max :: int where
  "TRUST_SCORE_max = 850"

text \<open>The tier of the pre-save hook: \<^verbatim>\<open>>= 750\<close> Gold, \<^verbatim>\<open>>= 550\<close> Silver, else Bronze.\<close>

definition tier_of :: "int \<Rightarrow> user_tier" where
  "tier_of t = (if t \<ge> 750 then Gold else if t \<ge> 550 then Silver else Bronze)"

text \<open>
  A save validates the document before the pre-save hook runs, the paths it loaded as
  well as those it modified, and throws when a validator fails. Of the paths of the
  model, \<^verbatim>\<open>fullName\<close> is required and at most 100 characters long, and \<^verbatim>\<open>trustScore\<close> has
  \<^verbatim>\<open>min\<close> 300 and \<^verbatim>\<open>max\<close> 850; the tier, the status and the reason only take values of
  their enumerations, and the \<^verbatim>\<open>min: 0\<close> of the wallet is an option of \<^verbatim>\<open>Decimal128\<close>
  paths, for which the library has no range validator. The identity paths outside the
  model (\<^verbatim>\<open>bvn\<close>, \<^verbatim>\<open>nin\<close>, \<^verbatim>\<open>phoneNumber\<close>), which no statement modifies, are taken to be
  stored valid.
\<close>

definition validateSync :: "user \<Rightarrow> bool" where
  "validateSync doc =
    (fullName doc \<noteq> [] \<and> length (fullName doc) \<le> 100
     \<and> TRUST_SCORE_min \<le> trustScore doc \<and> trustScore doc \<le> TRUST_SCORE_max)"

text \<open>
  \<^verbatim>\<open>UserSchema.pre('save')\<close>. \<open>orig\<close> is the document as it was loaded or last saved and
  \<open>doc\<close> the document being saved: a path is modified when the two differ there. Stored
  amounts have the form in which the program writes them, the shortest decimal of a
  number, so two amounts differ when they read as different numbers. \<open>isNew\<close> is the flag
  of a document that was never saved.
\<close>

definition pre_save :: "time \<Rightarrow> bool \<Rightarrow> user \<Rightarrow> user \<Rightarrow> user" where
  "pre_save now isNew orig doc =
    (let debtModified =
           (parseFloat (debtBalance (wallet doc)) \<noteq> parseFloat (debtBalance (wallet orig)));
         debt = parseFloat (debtBalance (wallet doc));
         doc1 = (if (debtModified \<or> isNew)
                    \<and> debt > DEBT_BLACKLIST_THRESHOLD \<and> status doc \<noteq> Blacklisted
                 then doc\<lparr>status := Blacklisted, blacklistedAt := Some now,
                          blacklistReason := Some Excessive_Debt\<rparr>
                 else doc)
     in if trustScore doc1 \<noteq> trustScore orig
        then doc1\<lparr>userTier := tier_of (trustScore doc1)\<rparr>
        else doc1)"

text \<open>\<^verbatim>\<open>this.save()\<close>: the document in memory after the save, or the error it throws.\<close>

definition save_user :: "time \<Rightarrow> user \<Rightarrow> user \<Rightarrow> error + user" where
  "save_user now orig doc =
    (if validateSync doc then Inr (pre_save now False orig doc) else Inl ValidationError)"

text \<open>\<^verbatim>\<open>applyDefaultPenalty(baseAmount)\<close>, its \<^verbatim>\<open>this.save()\<close> included.\<close>

definition applyDefaultPenalty :: "time \<Rightarrow> rat \<Rightarrow> user \<Rightarrow> error + user" where
  "applyDefaultPenalty now baseAmount u =
    (let penaltyRate = fl 0.05;
         totalOwed = js_mul baseAmount (js_add 1 penaltyRate);
         currentDebt = parseFloat (debtBalance (wallet u));
         doc = u\<lparr>wallet := (wallet u)\<lparr>debtBalance := js_add currentDebt totalOwed\<rparr>,
                 trustScore := max TRUST_SCORE_min (trustScore u - 50)\<rparr>
     in save_user now u doc)"




text \<open>\<^verbatim>\<open>escrowToVault(amount)\<close>, its \<^verbatim>\<open>this.save()\<close> included.\<close>

definition escrowToVault :: "time \<Rightarrow> rat \<Rightarrow> user \<Rightarrow> error + user" where
  "escrowToVault now amt u =
    (let available = parseFloat (availableBalance (wallet u))
     in if available < amt then Inl InsufficientFunds
        else let vault = parseFloat (vaultBalance (wallet u));
                 doc = u\<lparr>wallet := (wallet u)\<lparr>availableBalance := js_sub available amt,
                                              vaultBalance := js_add vault amt\<rparr>\<rparr>
             in save_user now u doc)"

text \<open>
  \<^verbatim>\<open>repayDebt(amount)\<close> returns the remaining debt; the document after the call is the
  second component.
\<close>

definition repayDebt :: "time \<Rightarrow> rat \<Rightarrow> user \<Rightarrow> error + (rat \<times> user)" where
  "repayDebt now amt u =
    (let available = parseFloat (availableBalance (wallet u));
         debt = parseFloat (debtBalance (wallet u))
     in if amt > available then Inl InsufficientFunds
        else if amt > debt then Inl OverpaymentRejected
        else let doc1 = u\<lparr>wallet := (wallet u)\<lparr>availableBalance := js_sub available amt,
                                               debtBalance := js_sub debt amt\<rparr>,
                          trustScore := min TRUST_SCORE_max (trustScore u + 10)\<rparr>;
                 doc2 = (if parseFloat (debtBalance (wallet doc1)) = 0 \<and> status doc1 = Frozen
                         then doc1\<lparr>status := Active\<rparr> else doc1)
             in (case save_user now u doc2 of
                   Inl e \<Rightarrow> Inl e
                 | Inr doc3 \<Rightarrow> Inr (parseFloat (debtBalance (wallet doc3)), doc3)))"

section \<open>The join validation middleware\<close>




section \<open>Saving a user document\<close>

text \<open>
  A save writes the paths of the document that were modified since it was loaded, and
  leaves the other paths of the stored document as they are. \<open>orig\<close> is the document as
  loaded, \<open>doc\<close> the document in memory after the save, \<open>stored\<close> what the database holds.
\<close>

definition write_modified :: "user \<Rightarrow> user \<Rightarrow> user \<Rightarrow> user" where
  "write_modified orig doc stored =
    \<lparr>fullName = (if fullName doc = fullName orig then fullName stored else fullName doc),
     wallet =
       \<lparr>availableBalance =
          (if parseFloat (availableBalance (wallet doc)) = parseFloat (availableBalance (wallet orig))
           then availableBalance (wallet stored) else availableBalance (wallet doc)),
        vaultBalance =
          (if parseFloat (vaultBalance (wallet doc)) = parseFloat (vaultBalance (wallet orig))
           then vaultBalance (wallet stored) else vaultBalance (wallet doc)),
        debtBalance =
          (if parseFloat (debtBalance (wallet doc)) = parseFloat (debtBalance (wallet orig))
           then debtBalance (wallet stored) else debtBalance (wallet doc))\<rparr>,
     trustScore = (if trustScore doc = trustScore orig then trustScore stored else trustScore doc),
     userTier = (if userTier doc = userTier orig then userTier stored else userTier doc),
     status = (if status doc = status orig then status stored else status doc),
     activeCircles =
       (if activeCircles doc = activeCircles orig then activeCircles stored
        else activeCircles doc),
     blacklistedAt =
       (if blacklistedAt doc = blacklistedAt orig then blacklistedAt stored
        else blacklistedAt doc),
     blacklistReason =
       (if blacklistReason doc = blacklistReason orig then blacklistReason stored
        else blacklistReason doc)\<rparr>"

text \<open>
  No user is deleted while a payout runs, so a document that was loaded is still stored
  when it is saved; the \<open>None\<close> branch only makes the function total.
\<close>

definition persist :: "uid \<Rightarrow> user \<Rightarrow> user \<Rightarrow> (uid \<rightharpoonup> user) \<Rightarrow> (uid \<rightharpoonup> user)" where
  "persist k orig doc us =
    (case us k of
       None \<Rightarrow> us
     | Some stored \<Rightarrow> us(k \<mapsto> write_modified orig doc stored))"

section \<open>The cycle manager\<close>

subsection \<open>Steps 1 and 2: collection and platform fee\<close>

text \<open>\<open>contribution\<close> is the local \<^verbatim>\<open>contributionAmount\<close>, the field as a number.\<close>

definition contribution :: "circle \<Rightarrow> rat" where
  "contribution c = parseFloat (contributionAmount c)"

definition expectedTotal :: "circle \<Rightarrow> rat" where
  "expectedTotal c = parseFloat (totalPot c)"

definition successfulPayments :: "circle \<Rightarrow> member list" where
  "successfulPayments c = filter (\<lambda>m. paymentStatus m = Paid) (members c)"

definition actualCollected :: "circle \<Rightarrow> rat" where
  "actualCollected c = js_mul (of_nat (length (successfulPayments c))) (contribution c)"

definition shortfall :: "circle \<Rightarrow> rat" where
  "shortfall c = js_sub (expectedTotal c) (actualCollected c)"

definition defaultCount :: "circle \<Rightarrow> nat" where
  "defaultCount c = length (members c) - length (successfulPayments c)"

definition platformFeeRate :: rat where
  "platformFeeRate = fl 0.015"

definition platformFee :: "circle \<Rightarrow> rat" where
  "platformFee c = js_mul (expectedTotal c) platformFeeRate"

definition netPayout :: "circle \<Rightarrow> rat" where
  "netPayout c = js_sub (expectedTotal c) (platformFee c)"

text \<open>\<^verbatim>\<open>new BackstopReserve()\<close>: the schema's defaults.\<close>

definition new_BackstopReserve :: reserve where
  "new_BackstopReserve = \<lparr>balance = 0, totalDeployed = 0, activeLoans = []\<rparr>"

definition findOne_or_new :: "db \<Rightarrow> reserve" where
  "findOne_or_new d = (case backstop d of None \<Rightarrow> new_BackstopReserve | Some r \<Rightarrow> r)"

text \<open>The fee on the circle's own counters, and on the reserve's balance.\<close>

definition trackFee :: "circle \<Rightarrow> circle" where
  "trackFee c =
    c\<lparr>backstopBalance := js_add (parseFloat (backstopBalance c)) (platformFee c),
      totalFeesCollected := js_add (parseFloat (totalFeesCollected c)) (platformFee c)\<rparr>"

definition depositFee :: "rat \<Rightarrow> reserve \<Rightarrow> reserve" where
  "depositFee fee res = res\<lparr>balance := js_add (parseFloat (balance res)) fee\<rparr>"

subsection \<open>Step 3: defaults\<close>

text \<open>
  The loop over the defaulters. \<open>populated\<close> holds the user documents in memory, as
  \<^verbatim>\<open>populate('members.user')\<close> loaded them (\<open>None\<close> for a dangling reference, where
  \<^verbatim>\<open>defaulter.user._id\<close> is a read on \<^verbatim>\<open>null\<close>): member entries of one user share one
  document, so a second entry is penalised on the document the first one left. The loans
  are pushed on the reserve in memory, which is saved only at the end of a payout that
  succeeds, and every defaulter's document is saved as the loop goes, by the method
  itself; a save that throws ends the payout with the writes made so far. The
  \<^verbatim>\<open>defaulter.user.save\<close> that follows the method finds nothing modified.
\<close>

fun penalizeDefaulters ::
  "time \<Rightarrow> cid \<Rightarrow> rat \<Rightarrow> (uid \<rightharpoonup> user) \<Rightarrow> member list \<Rightarrow> loan list \<Rightarrow> (uid \<rightharpoonup> user)
    \<Rightarrow> error option \<times> loan list \<times> (uid \<rightharpoonup> user)" where
  "penalizeDefaulters now circleId amt populated [] loans us = (None, loans, us)"
| "penalizeDefaulters now circleId amt populated (defaulter # ds) loans us =
    (case populated (member_user defaulter) of
       None \<Rightarrow> (Some TypeError, loans, us)
     | Some doc \<Rightarrow>
        (case applyDefaultPenalty now amt doc of
           Inl e \<Rightarrow> (Some e, loans, us)
         | Inr saved \<Rightarrow>
            penalizeDefaulters now circleId amt
              (populated(member_user defaulter \<mapsto> saved)) ds
              (loans @ [\<lparr>loan_circle = circleId, amount = amt,
                          defaultedUser = member_user defaulter, recovered = False,
                          createdAt = now\<rparr>])
              (persist (member_user defaulter) doc saved us)))"

definition markDefaulted :: "member \<Rightarrow> member" where
  "markDefaulted m = (if paymentStatus m = Paid then m else m\<lparr>paymentStatus := Defaulted\<rparr>)"

text \<open>
  The result: the error thrown (if any), \<open>backstopLoan\<close>, the reserve and the members
  in memory, and the stored users.
\<close>

definition handleDefaults ::
  "time \<Rightarrow> cid \<Rightarrow> circle \<Rightarrow> reserve \<Rightarrow> (uid \<rightharpoonup> user)
    \<Rightarrow> error option \<times> rat \<times> reserve \<times> member list \<times> (uid \<rightharpoonup> user)" where
  "handleDefaults now circleId c res us =
    (if shortfall c > 0 then
       let reserveBalance = parseFloat (balance res)
       in if reserveBalance < shortfall c
          then (Some (ReserveInsufficient (shortfall c) reserveBalance), 0, res, members c, us)
          else
            let res1 = res\<lparr>balance := js_sub reserveBalance (shortfall c),
                           totalDeployed :=
                             js_add (parseFloat (totalDeployed res)) (shortfall c)\<rparr>;
                defaulters = filter (\<lambda>m. paymentStatus m \<noteq> Paid) (members c);
                (e, loans, us1) =
                  penalizeDefaulters now circleId (contribution c) us defaulters
                    (activeLoans res1) us
            in (e, shortfall c, res1\<lparr>activeLoans := loans\<rparr>, map markDefaulted (members c), us1)
     else (None, 0, res, members c, us))"

subsection \<open>Steps 4 and 5: withholding and the recipient's ledgers\<close>

text \<open>\<^verbatim>\<open>withholdingRates[recipient.userTier] || 0.20\<close>\<close>

definition withholdingRate :: "user_tier \<Rightarrow> rat" where
  "withholdingRate t =
    (case t of Bronze \<Rightarrow> fl 0.20 | Silver \<Rightarrow> fl 0.10 | Gold \<Rightarrow> fl 0.10)"

definition vaultAmount :: "circle \<Rightarrow> user \<Rightarrow> rat" where
  "vaultAmount c r = js_mul (netPayout c) (withholdingRate (userTier r))"

definition availableAmount :: "circle \<Rightarrow> user \<Rightarrow> rat" where
  "availableAmount c r = js_sub (netPayout c) (vaultAmount c r)"

text \<open>The recipient's document in memory before \<^verbatim>\<open>recipient.save\<close>.\<close>

definition updateUserLedgers :: "circle \<Rightarrow> user \<Rightarrow> user" where
  "updateUserLedgers c r =
    (let currentAvailable = parseFloat (availableBalance (wallet r));
         currentVault = parseFloat (vaultBalance (wallet r))
     in r\<lparr>wallet := (wallet r)\<lparr>availableBalance := js_add currentAvailable (availableAmount c r),
                                 vaultBalance := js_add currentVault (vaultAmount c r)\<rparr>,
          trustScore := min 850 (trustScore r + 5)\<rparr>)"

subsection \<open>Step 6: rotation and completion\<close>

definition resetMember :: "member \<Rightarrow> member" where
  "resetMember m =
    (if paymentStatus m = Paid then m\<lparr>totalContributionsMade := totalContributionsMade m + 1\<rparr>
     else m)\<lparr>paymentStatus := Pending\<rparr>"

text \<open>
  The loop of \<^verbatim>\<open>completeCircle\<close>: each member's user is loaded, and only when its vault
  is positive is the vault released, the circle taken out of \<^verbatim>\<open>activeCircles\<close> and
  the user saved.
\<close>

fun releaseVaults ::
  "time \<Rightarrow> cid \<Rightarrow> member list \<Rightarrow> (uid \<rightharpoonup> user) \<Rightarrow> error option \<times> (uid \<rightharpoonup> user)" where
  "releaseVaults now circleId [] us = (None, us)"
| "releaseVaults now circleId (memberRef # ms) us =
    (case us (member_user memberRef) of
       None \<Rightarrow> (Some TypeError, us)
     | Some u \<Rightarrow>
        let vaultAmt = parseFloat (vaultBalance (wallet u))
        in if vaultAmt > 0 then
             let available = parseFloat (availableBalance (wallet u));
                 doc = u\<lparr>wallet := (wallet u)\<lparr>availableBalance := js_add available vaultAmt,
                                              vaultBalance := 0\<rparr>,
                         activeCircles := filter (\<lambda>c. c \<noteq> circleId) (activeCircles u)\<rparr>
             in (case save_user now u doc of
                   Inl e \<Rightarrow> (Some e, us)
                 | Inr saved \<Rightarrow>
                    releaseVaults now circleId ms (persist (member_user memberRef) u saved us))
           else releaseVaults now circleId ms us)"

definition completeCircle ::
  "time \<Rightarrow> cid \<Rightarrow> circle \<Rightarrow> (uid \<rightharpoonup> user) \<Rightarrow> error option \<times> circle \<times> (uid \<rightharpoonup> user)" where
  "completeCircle now circleId c us =
    (let c1 = c\<lparr>circle_status := Completed\<rparr>;
         (e, us1) = releaseVaults now circleId (members c1) us
     in (e, c1, us1))"

text \<open>
  The rotation. The payout reaches it only with a recipient, that is with a populated
  \<^verbatim>\<open>payoutOrder\<close> that is not empty, so the modulus is not 0.
\<close>

definition advanceCycle ::
  "time \<Rightarrow> cid \<Rightarrow> circle \<Rightarrow> (uid \<rightharpoonup> user) \<Rightarrow> error option \<times> circle \<times> (uid \<rightharpoonup> user)" where
  "advanceCycle now circleId c us =
    (let c1 = c\<lparr>currentTurn := (currentTurn c + 1) mod length (payoutOrder c),
                 lastPayoutDate := Some now,
                 members := map resetMember (members c)\<rparr>
     in if currentTurn c1 = 0 then
          let c2 = c1\<lparr>cycleCount := cycleCount c1 + 1\<rparr>
          in if cycleCount c2 \<ge> length (payoutOrder c2) then completeCircle now circleId c2 us
             else (None, c2, us)
        else (None, c1, us))"

subsection \<open>The payout\<close>

text \<open>
  \<^verbatim>\<open>Circle.findById(circleId).populate('members.user').populate('payoutOrder')\<close>. The
  model keeps the identifiers and looks the documents up in the users as they are at
  load time: a member whose user does not exist has \<^verbatim>\<open>null\<close> for its user, and a
  reference of \<^verbatim>\<open>payoutOrder\<close> whose user does not exist is left out of the populated
  array (the library's default for an array of references). The save of the circle does
  not write \<^verbatim>\<open>payoutOrder\<close>, which no statement modifies.
\<close>

definition populate_payoutOrder :: "(uid \<rightharpoonup> user) \<Rightarrow> circle \<Rightarrow> circle" where
  "populate_payoutOrder us c = c\<lparr>payoutOrder := filter (\<lambda>u. us u \<noteq> None) (payoutOrder c)\<rparr>"

text \<open>\<^verbatim>\<open>currentRecipient\<close>, the virtual of the circle schema.\<close>

definition currentRecipient :: "circle \<Rightarrow> uid option" where
  "currentRecipient c =
    (if payoutOrder c = [] then None
     else Some (payoutOrder c ! (currentTurn c mod length (payoutOrder c))))"

record receipt =
  rc_recipient :: string
  rc_grossAmount :: rat
  rc_platformFee :: rat
  rc_netPayout :: rat
  rc_withheldInVault :: rat
  rc_availableNow :: rat
  rc_defaultsCovered :: nat
  rc_backstopLoan :: rat
  rc_nextTurn :: nat

text \<open>
  The save of the circle validates it. The schema requires the \<^verbatim>\<open>user\<close> of every member,
  and the populated circle has \<^verbatim>\<open>null\<close> there for a user that does not exist. The paths
  outside the model (\<^verbatim>\<open>title\<close>, \<^verbatim>\<open>frequency\<close>), which no statement modifies, are taken to
  be stored valid; the schema of the reserve has no validators.
\<close>

definition validateMembers :: "(uid \<rightharpoonup> user) \<Rightarrow> circle \<Rightarrow> bool" where
  "validateMembers us c = list_all (\<lambda>m. us (member_user m) \<noteq> None) (members c)"

text \<open>
  \<^verbatim>\<open>processCirclePayout(circleId, session)\<close>. The route calls it with no session, so
  every save is stored when it is made: the second component is the database as it is
  when the function returns or throws.
\<close>

definition processCirclePayout :: "time \<Rightarrow> cid \<Rightarrow> db \<Rightarrow> (error + receipt) \<times> db" where
  "processCirclePayout now circleId d =
    (case circles d circleId of
       None \<Rightarrow> (Inl CircleNotFound, d)
     | Some stored \<Rightarrow>
        let c = populate_payoutOrder (users d) stored
        in if circle_status c \<noteq> Circle_Active then (Inl CircleNotActive, d)
        else
          (case currentRecipient c of
             None \<Rightarrow> (Inl RecipientNotFound, d)
           | Some recipientId \<Rightarrow>
              (case users d recipientId of
                 None \<Rightarrow> (Inl RecipientNotFound, d)
               | Some r \<Rightarrow>
                  let c1 = trackFee c;
                      res1 = depositFee (platformFee c) (findOne_or_new d);
                      (e3, loan3, res3, ms3, us3) = handleDefaults now circleId c1 res1 (users d)
                  in (case e3 of
                        Some e \<Rightarrow> (Inl e, d\<lparr>users := us3\<rparr>)
                      | None \<Rightarrow>
                         (case save_user now r (updateUserLedgers c r) of
                            Inl e \<Rightarrow> (Inl e, d\<lparr>users := us3\<rparr>)
                          | Inr saved \<Rightarrow>
                             let us5 = persist recipientId r saved us3;
                                 (e6, c6, us6) =
                                   advanceCycle now circleId (c1\<lparr>members := ms3\<rparr>) us5
                             in (case e6 of
                                   Some e \<Rightarrow> (Inl e, d\<lparr>users := us6\<rparr>)
                                 | None \<Rightarrow>
                                    if validateMembers (users d) c then
                                      (Inr \<lparr>rc_recipient = fullName r,
                                            rc_grossAmount = expectedTotal c,
                                            rc_platformFee = platformFee c,
                                            rc_netPayout = netPayout c,
                                            rc_withheldInVault = vaultAmount c r,
                                            rc_availableNow = availableAmount c r,
                                            rc_defaultsCovered = defaultCount c,
                                            rc_backstopLoan = loan3,
                                            rc_nextTurn = currentTurn c6\<rparr>,
                                       d\<lparr>users := us6,
                                         circles := (circles d)(circleId \<mapsto>
                                           c6\<lparr>payoutOrder := payoutOrder stored\<rparr>),
                                         backstop := Some res3\<rparr>)
                                    else (Inl ValidationError, d\<lparr>users := us6\<rparr>)))))))"

subsection \<open>Contribution\<close>

fun markPaid :: "time \<Rightarrow> uid \<Rightarrow> member list \<Rightarrow> member list" where
  "markPaid now userId [] = []"
| "markPaid now userId (m # ms) =
    (if member_user m = userId
     then m\<lparr>paymentStatus := Paid, lastPaymentDate := Some now\<rparr> # ms
     else m # markPaid now userId ms)"

text \<open>
  \<^verbatim>\<open>processContribution(circleId, userId, session)\<close>; \<^verbatim>\<open>members.find\<close> takes the first
  entry of the user, and the \<^verbatim>\<open>user.save\<close> that follows \<^verbatim>\<open>escrowToVault\<close> finds nothing
  modified.
\<close>

definition processContribution ::
  "time \<Rightarrow> cid \<Rightarrow> uid \<Rightarrow> db \<Rightarrow> (error + payment_status \<times> rat) \<times> db" where
  "processContribution now circleId userId d =
    (case circles d circleId of
       None \<Rightarrow> (Inl TypeError, d)
     | Some c \<Rightarrow>
        (case find (\<lambda>m. member_user m = userId) (members c) of
           None \<Rightarrow> (Inl NotAMember, d)
         | Some m \<Rightarrow>
            if paymentStatus m = Paid then (Inl AlreadyPaid, d)
            else
              (case users d userId of
                 None \<Rightarrow> (Inl TypeError, d)
               | Some u \<Rightarrow>
                  (case escrowToVault now (contribution c) u of
                     Inl e \<Rightarrow> (Inl e, d)
                   | Inr u1 \<Rightarrow>
                      (Inr (Paid, vaultBalance (wallet u1)),
                       d\<lparr>users := (users d)(userId \<mapsto> u1),
                         circles := (circles d)(circleId \<mapsto>
                           c\<lparr>members := markPaid now userId (members c)\<rparr>)\<rparr>)))))"

section \<open>Consecutive rounds\<close>

text \<open>
  Consecutive payouts with full collection. A round is a list of contributions (time,
  circle, user), each of which has to succeed, followed by a payout of circle \<open>k\<close> at a
  given time, which has to find every member of the circle Paid and has to succeed.
  \<open>fullRounds\<close> is \<open>None\<close> as soon as one of these fails.
\<close>

fun contributeAll :: "(time \<times> cid \<times> uid) list \<Rightarrow> db \<Rightarrow> db option" where
  "contributeAll [] d = Some d"
| "contributeAll ((now, circleId, userId) # xs) d =
    (case processContribution now circleId userId d of
       (Inl e, d1) \<Rightarrow> None
     | (Inr paid, d1) \<Rightarrow> contributeAll xs d1)"

fun fullRounds :: "cid \<Rightarrow> ((time \<times> cid \<times> uid) list \<times> time) list \<Rightarrow> db \<Rightarrow> db option" where
  "fullRounds k [] d = Some d"
| "fullRounds k ((contributions, now) # rounds) d =
    (case contributeAll contributions d of
       None \<Rightarrow> None
     | Some d1 \<Rightarrow>
        (case circles d1 k of
           None \<Rightarrow> None
         | Some c \<Rightarrow>
            if list_all (\<lambda>m. paymentStatus m = Paid) (members c) then
              (case processCirclePayout now k d1 of
                 (Inl e, d2) \<Rightarrow> None
               | (Inr rc, d2) \<Rightarrow> fullRounds k rounds d2)
            else None))"

section \<open>Example states\<close>

text \<open>
  The user of the schema's own test 5, the same user with other balances, and a Bronze
  member of two circles.
\<close>

definition risky_user :: user where
  "risky_user =
    \<lparr>fullName = ''Risky User'',
     wallet = \<lparr>availableBalance = 0, vaultBalance = 0, debtBalance = 490000\<rparr>,
     trustScore = 400, userTier = Bronze, status = Active, activeCircles = [],
     blacklistedAt = None, blacklistReason = None\<rparr>"

definition owing_with :: "rat \<Rightarrow> rat \<Rightarrow> user" where
  "owing_with available debt =
    risky_user\<lparr>wallet := \<lparr>availableBalance = available, vaultBalance = 0, debtBalance = debt\<rparr>\<rparr>"


text \<open>
  A circle of three members with a contribution of 10000 in which two have paid, over a
  reserve of a given balance; and the same circle in the last round of its last rotation,
  the member who has not paid holding nothing in the vault.
\<close>

definition ada :: user where
  "ada = \<lparr>fullName = ''Ada'',
     wallet = \<lparr>availableBalance = 40000, vaultBalance = 10000, debtBalance = 0\<rparr>,
     trustScore = 400, userTier = Bronze, status = Active, activeCircles = [1],
     blacklistedAt = None, blacklistReason = None\<rparr>"

definition bola :: user where
  "bola = \<lparr>fullName = ''Bola'',
     wallet = \<lparr>availableBalance = 40000, vaultBalance = 10000, debtBalance = 0\<rparr>,
     trustScore = 600, userTier = Silver, status = Active, activeCircles = [1],
     blacklistedAt = None, blacklistReason = None\<rparr>"

definition chidi :: user where
  "chidi = \<lparr>fullName = ''Chidi'',
     wallet = \<lparr>availableBalance = 0, vaultBalance = 0, debtBalance = 0\<rparr>,
     trustScore = 400, userTier = Bronze, status = Active, activeCircles = [1],
     blacklistedAt = None, blacklistReason = None\<rparr>"

definition entry :: "uid \<Rightarrow> payment_status \<Rightarrow> member" where
  "entry k st = \<lparr>member_user = k, paymentStatus = st, lastPaymentDate = None,
                  totalContributionsMade = 0\<rparr>"

definition lagos_weekly :: circle where
  "lagos_weekly =
    \<lparr>contributionAmount = 10000, totalPot = 30000, payoutOrder = [1, 2, 3],
     currentTurn = 0, cycleCount = 0,
     members = [entry 1 Paid, entry 2 Paid, entry 3 Pending],
     backstopBalance = 0, totalFeesCollected = 0, circle_status = Circle_Active,
     lastPayoutDate = None\<rparr>"

definition scenario_db :: "rat \<Rightarrow> db" where
  "scenario_db reserveBalance =
    \<lparr>users = [1 \<mapsto> ada, 2 \<mapsto> bola, 3 \<mapsto> chidi],
     circles = [1 \<mapsto> lagos_weekly],
     backstop = Some \<lparr>balance = reserveBalance, totalDeployed = 0, activeLoans = []\<rparr>\<rparr>"

text \<open>
  The same users and circle with another contribution, total pot and payment statuses,
  over a reserve with a given balance and total deployed.
\<close>

definition round_of :: "rat \<Rightarrow> rat \<Rightarrow> payment_status list \<Rightarrow> circle" where
  "round_of each pot paid =
    lagos_weekly\<lparr>contributionAmount := each, totalPot := pot,
                 members := map (\<lambda>(k, st). entry k st) (zip [1, 2, 3] paid)\<rparr>"

definition reserve_of :: "rat \<Rightarrow> rat \<Rightarrow> reserve" where
  "reserve_of b deployed = \<lparr>balance = b, totalDeployed = deployed, activeLoans = []\<rparr>"

definition circle_db :: "circle \<Rightarrow> reserve \<Rightarrow> db" where
  "circle_db c res =
    \<lparr>users = [1 \<mapsto> ada, 2 \<mapsto> bola, 3 \<mapsto> chidi], circles = [1 \<mapsto> c], backstop = Some res\<rparr>"

definition last_round_db :: db where
  "last_round_db =
    \<lparr>users = [1 \<mapsto> ada, 2 \<mapsto> chidi, 3 \<mapsto> bola],
     circles = [1 \<mapsto> lagos_weekly\<lparr>currentTurn := 2, cycleCount := 2,
                    members := [entry 1 Paid, entry 2 Pending, entry 3 Paid]\<rparr>],
     backstop = Some \<lparr>balance = 1000000, totalDeployed = 0, activeLoans = []\<rparr>\<rparr>"

text \<open>A circle of two members who have all their rounds before them, and two full rounds.\<close>

definition pair_circle :: circle where
  "pair_circle =
    \<lparr>contributionAmount = 10000, totalPot = 20000, payoutOrder = [1, 2],
     currentTurn = 0, cycleCount = 0,
     members = [entry 1 Pending, entry 2 Pending],
     backstopBalance = 0, totalFeesCollected = 0,
     circle_status = Circle_Active, lastPayoutDate = None\<rparr>"

definition pair_db :: db where
  "pair_db = \<lparr>users = [1 \<mapsto> ada, 2 \<mapsto> bola], circles = [1 \<mapsto> pair_circle], backstop = None\<rparr>"

definition pair_rounds :: "((time \<times> cid \<times> uid) list \<times> time) list" where
  "pair_rounds = [([(1, 1, 1), (2, 1, 2)], 3), ([(4, 1, 2), (5, 1, 1)], 6)]"

section \<open>Properties of the rounding\<close>

lemma pow2_pos [simp]: "0 < (2::rat) powi e"
  by (simp add: zero_less_power_int)

lemma pow2_int: "0 \<le> e \<Longrightarrow> (2::rat) powi e = of_int (2 ^ nat e)"
  by (simp add: power_int_nonneg_exp)

lemma rat_lt_pow2_int:
  assumes "0 \<le> b" "n < 2 ^ nat b"
  shows "(of_int n :: rat) + 1 \<le> 2 powi b"
proof -
  from assms(2) have "n + 1 \<le> 2 ^ nat b" by simp
  then have "(of_int (n + 1) :: rat) \<le> of_int (2 ^ nat b)" by (simp only: of_int_le_iff)
  with assms(1) show ?thesis by (simp add: power_int_nonneg_exp)
qed

lemma ilog2_bounds:
  assumes "0 < x"
  shows "2 powi (ilog2 x) \<le> x" and "x < 2 powi (ilog2 x + 1)"
proof -
  have "2 powi (ilog2 x) \<le> x \<and> x < 2 powi (ilog2 x + 1)"
  proof (cases "1 \<le> x")
    case True
    let ?n = "\<lfloor>x\<rfloor>"
    from True have n: "0 < ?n" by simp
    from bitlen_bounds[OF n] have lo: "2 ^ nat (bitlen ?n - 1) \<le> ?n" and hi: "?n < 2 ^ nat (bitlen ?n)"
      by simp_all
    from n have b1: "1 \<le> bitlen ?n" by (simp add: bitlen_alt_def)
    have "(2::rat) powi (bitlen ?n - 1) = of_int (2 ^ nat (bitlen ?n - 1))"
      using b1 by (simp add: power_int_nonneg_exp)
    also have "\<dots> \<le> of_int ?n" using lo by (simp only: of_int_le_iff)
    also have "\<dots> \<le> x" by simp
    finally have 1: "2 powi (bitlen ?n - 1) \<le> x" .
    have "x < of_int ?n + 1" by linarith
    also have "\<dots> \<le> 2 powi (bitlen ?n)"
      using rat_lt_pow2_int[OF _ hi] b1 by simp
    finally have 2: "x < 2 powi (bitlen ?n)" .
    from True 1 2 show ?thesis by (simp add: ilog2_def)
  next
    case False
    with assms have x1: "x < 1" by simp
    let ?y = "1 / x"
    let ?n = "\<lceil>?y\<rceil> - 1"
    from assms x1 have y1: "1 < ?y" by simp
    then have "1 < \<lceil>?y\<rceil>" by (simp add: less_ceiling_iff)
    then have n: "0 < ?n" by simp
    from bitlen_bounds[OF n] have lo: "2 ^ nat (bitlen ?n - 1) \<le> ?n" and hi: "?n < 2 ^ nat (bitlen ?n)"
      by simp_all
    from n have b1: "1 \<le> bitlen ?n" by (simp add: bitlen_alt_def)
    have ny: "of_int ?n < ?y" "?y \<le> of_int ?n + 1"
      by linarith+
    have "?y \<le> of_int ?n + 1" by fact
    also have "\<dots> \<le> 2 powi (bitlen ?n)"
      using rat_lt_pow2_int[OF _ hi] b1 by simp
    finally have "?y \<le> 2 powi (bitlen ?n)" .
    with assms have "1 \<le> 2 powi (bitlen ?n) * x"
      by (simp add: field_simps)
    then have 1: "2 powi (- bitlen ?n) \<le> x"
      by (simp add: power_int_minus_divide pos_divide_le_eq mult.commute)
    have "(2::rat) powi (bitlen ?n - 1) = of_int (2 ^ nat (bitlen ?n - 1))"
      using b1 by (simp add: power_int_nonneg_exp)
    also have "\<dots> \<le> of_int ?n" using lo by (simp only: of_int_le_iff)
    also have "\<dots> < ?y" by fact
    finally have "2 powi (bitlen ?n - 1) < ?y" .
    with assms have "x * 2 powi (bitlen ?n - 1) < 1"
      by (simp add: field_simps)
    then have "x < 2 powi (- (bitlen ?n - 1))"
      by (simp only: power_int_minus_divide pos_less_divide_eq[OF pow2_pos])
    then have 2: "x < 2 powi (- bitlen ?n + 1)" by (simp add: algebra_simps)
    from False 1 2 show ?thesis by (simp add: ilog2_def)
  qed
  then show "2 powi (ilog2 x) \<le> x" and "x < 2 powi (ilog2 x + 1)" by simp_all
qed

lemma pow2_mono: "a \<le> b \<Longrightarrow> (2::rat) powi a \<le> 2 powi b"
  by (rule power_int_increasing) simp_all

lemma pow2_less_exp: "(2::rat) powi a < 2 powi b \<Longrightarrow> a < b"
  using pow2_mono[of b a] by (cases "a < b") auto

lemma ilog2_unique:
  assumes "0 < x" "2 powi e \<le> x" "x < 2 powi (e + 1)"
  shows "ilog2 x = e"
proof -
  from ilog2_bounds[OF assms(1)] assms(2,3)
  have "(2::rat) powi e < 2 powi (ilog2 x + 1)" "(2::rat) powi (ilog2 x) < 2 powi (e + 1)"
    by linarith+
  then have "e < ilog2 x + 1" "ilog2 x < e + 1" by (auto dest: pow2_less_exp)
  then show ?thesis by simp
qed


lemma rne_of_int [simp]: "rne (of_int k) = k"
  by (simp add: rne_def)

lemma rne_lower: "\<lfloor>y\<rfloor> \<le> rne y"
  by (simp add: rne_def Let_def)

lemma rne_upper: "rne y \<le> \<lfloor>y\<rfloor> + 1"
  by (simp add: rne_def Let_def)

lemma rne_ge_int:
  assumes "of_int k \<le> y"
  shows "k \<le> rne y"
proof -
  from assms have "k \<le> \<lfloor>y\<rfloor>" by (simp add: le_floor_iff)
  with rne_lower[of y] show ?thesis by simp
qed

lemma rne_le_int:
  assumes "y \<le> of_int k"
  shows "rne y \<le> k"
proof (cases "y = of_int k")
  case True
  then show ?thesis by simp
next
  case False
  with assms have "y < of_int k" by simp
  then have "\<lfloor>y\<rfloor> < k" by (simp add: floor_less_iff)
  with rne_upper[of y] show ?thesis by simp
qed

lemma rne_mono:
  assumes "y \<le> z"
  shows "rne y \<le> rne z"
proof (cases "\<lfloor>y\<rfloor> < \<lfloor>z\<rfloor>")
  case True
  with rne_upper[of y] rne_lower[of z] show ?thesis by simp
next
  case False
  with assms have eq: "\<lfloor>y\<rfloor> = \<lfloor>z\<rfloor>"
    using floor_mono[of y z] by simp
  with assms show ?thesis
    by (auto simp: rne_def Let_def)
qed

lemma fl_0 [simp]: "fl 0 = 0"
  by (simp add: fl_def)

lemma fl_minus: "fl (- x) = - fl x"
  by (simp add: fl_def Let_def sgn_minus)

lemma scaled_bounds:
  assumes "0 < x"
  shows "2 ^ 52 \<le> x / 2 powi (ilog2 x - 52)" and "x / 2 powi (ilog2 x - 52) < 2 ^ 53"
proof -
  let ?e = "ilog2 x"
  have q: "(2::rat) powi (?e - 52) * 2 ^ 52 = 2 powi ?e"
    "(2::rat) powi (?e - 52) * 2 ^ 53 = 2 powi (?e + 1)"
    by (simp_all add: power_int_diff power_int_add)
  from ilog2_bounds[OF assms] q
  have "2 powi (?e - 52) * 2 ^ 52 \<le> x" "x < 2 powi (?e - 52) * 2 ^ 53"
    by simp_all
  then show "2 ^ 52 \<le> x / 2 powi (ilog2 x - 52)" and "x / 2 powi (ilog2 x - 52) < 2 ^ 53"
    by (simp_all add: pos_le_divide_eq pos_divide_less_eq mult.commute)
qed

lemma mantissa_bounds:
  assumes "0 < x"
  shows "2 ^ 52 \<le> rne (x / 2 powi (ilog2 x - 52))" and "rne (x / 2 powi (ilog2 x - 52)) \<le> 2 ^ 53"
proof -
  show "2 ^ 52 \<le> rne (x / 2 powi (ilog2 x - 52))"
    by (rule rne_ge_int) (use scaled_bounds(1)[OF assms] in simp)
  show "rne (x / 2 powi (ilog2 x - 52)) \<le> 2 ^ 53"
    by (rule rne_le_int) (use scaled_bounds(2)[OF assms] in simp)
qed

lemma fl_pos_eq: "0 < x \<Longrightarrow> fl x = of_int (rne (x / 2 powi (ilog2 x - 52))) * 2 powi (ilog2 x - 52)"
  by (simp add: fl_def Let_def)

lemma fl_pos: "0 < x \<Longrightarrow> 0 < fl x"
  using mantissa_bounds(1)[of x] by (simp add: fl_pos_eq)

lemma fl_neg: "x < 0 \<Longrightarrow> fl x < 0"
  using fl_pos[of "- x"] by (simp add: fl_minus)

lemma fl_sign: "(0 < fl x \<longleftrightarrow> 0 < x) \<and> (fl x < 0 \<longleftrightarrow> x < 0)"
proof -
  consider "0 < x" | "x = 0" | "x < 0" by linarith
  then show ?thesis
  proof cases
    case 1
    with fl_pos[OF 1] show ?thesis by simp
  next
    case 2
    then show ?thesis by simp
  next
    case 3
    with fl_neg[OF 3] show ?thesis by simp
  qed
qed

lemma fl_pos_iff [simp]: "0 < fl x \<longleftrightarrow> 0 < x"
  using fl_sign[of x] by simp

lemma fl_neg_iff [simp]: "fl x < 0 \<longleftrightarrow> x < 0"
  using fl_sign[of x] by simp

lemma fl_eq_0_iff [simp]: "fl x = 0 \<longleftrightarrow> x = 0"
proof
  assume "fl x = 0"
  show "x = 0"
  proof (rule ccontr)
    assume "x \<noteq> 0"
    then consider "0 < x" | "x < 0" by linarith
    then show False
      using fl_pos[of x] fl_neg[of x] \<open>fl x = 0\<close> by cases simp_all
  qed
qed simp

lemma fl_nonneg_iff [simp]: "0 \<le> fl x \<longleftrightarrow> 0 \<le> x"
  using fl_neg_iff[of x] by (simp only: not_less[symmetric])

lemma fl_nonpos_iff [simp]: "fl x \<le> 0 \<longleftrightarrow> x \<le> 0"
  using fl_pos_iff[of x] by (simp only: not_less[symmetric])

lemma fl_pos_bounds:
  assumes "0 < x"
  shows "2 powi (ilog2 x) \<le> fl x" and "fl x \<le> 2 powi (ilog2 x + 1)"
proof -
  let ?q = "(2::rat) powi (ilog2 x - 52)"
  let ?m = "rne (x / ?q)"
  have q: "?q * 2 ^ 52 = 2 powi (ilog2 x)" "?q * 2 ^ 53 = 2 powi (ilog2 x + 1)"
    by (simp_all add: power_int_diff power_int_add)
  from mantissa_bounds[OF assms]
  have "(of_int (2 ^ 52) :: rat) \<le> of_int ?m" "(of_int ?m :: rat) \<le> of_int (2 ^ 53)"
    by (simp_all only: of_int_le_iff)
  then have "2 ^ 52 * ?q \<le> of_int ?m * ?q" "of_int ?m * ?q \<le> 2 ^ 53 * ?q"
    by (simp_all add: mult_right_mono)
  with q show "2 powi (ilog2 x) \<le> fl x" and "fl x \<le> 2 powi (ilog2 x + 1)"
    by (simp_all add: fl_pos_eq[OF assms] mult.commute)
qed

text \<open>A number with a mantissa of at most 53 bits is its own rounding.\<close>

lemma fl_representable_pos:
  assumes "0 < m" "m \<le> 2 ^ 53"
  shows "fl (of_int m * 2 powi k) = of_int m * 2 powi k"
proof -
  let ?x = "(of_int m :: rat) * 2 powi k"
  from assms(1) have x: "0 < ?x" by simp
  let ?b = "bitlen m"
  from bitlen_bounds[OF assms(1)] have lo: "2 ^ nat (?b - 1) \<le> m" and hi: "m < 2 ^ nat ?b"
    by simp_all
  from assms(1) have b1: "1 \<le> ?b" by (simp add: bitlen_alt_def)
  have "(2::rat) powi (?b - 1) = of_int (2 ^ nat (?b - 1))"
    using b1 by (simp add: power_int_nonneg_exp)
  also have "\<dots> \<le> of_int m" using lo by (simp only: of_int_le_iff)
  finally have "2 powi (?b - 1) * 2 powi k \<le> ?x" by (simp add: mult_right_mono)
  then have 1: "2 powi (?b - 1 + k) \<le> ?x" by (simp add: power_int_add)
  have "(of_int m :: rat) < of_int (2 ^ nat ?b)" using hi by (simp only: of_int_less_iff)
  also have "\<dots> = 2 powi ?b" using b1 by (simp add: power_int_nonneg_exp)
  finally have "?x < 2 powi ?b * 2 powi k" by (simp add: mult_strict_right_mono)
  then have 2: "?x < 2 powi (?b - 1 + k + 1)" by (simp add: power_int_add)
  from ilog2_unique[OF x 1 2] have e: "ilog2 ?x = ?b - 1 + k" .
  have b54: "?b \<le> 54"
  proof (rule ccontr)
    assume "\<not> ?b \<le> 54"
    then have "54 \<le> ?b - 1" by simp
    then have "(2::int) ^ 54 \<le> 2 ^ nat (?b - 1)" by (intro power_increasing) simp_all
    with lo assms(2) show False by simp
  qed
  have scaled: "?x / 2 powi (ilog2 ?x - 52) = of_int m * 2 powi (53 - ?b)"
    by (simp add: e power_int_diff power_int_add field_simps)
  show ?thesis
  proof (cases "?b \<le> 53")
    case True
    then have "(2::rat) powi (53 - ?b) = of_int (2 ^ nat (53 - ?b))"
      by (simp add: power_int_nonneg_exp)
    then have "?x / 2 powi (ilog2 ?x - 52) = of_int (m * 2 ^ nat (53 - ?b))"
      by (simp add: scaled)
    then have "rne (?x / 2 powi (ilog2 ?x - 52)) = m * 2 ^ nat (53 - ?b)"
      by (simp only: rne_of_int)
    then have "fl ?x = of_int (m * 2 ^ nat (53 - ?b)) * 2 powi (?b - 1 + k - 52)"
      by (simp only: fl_pos_eq[OF x] e)
    also have "\<dots> = of_int m * (2 powi (53 - ?b) * 2 powi (?b - 1 + k - 52))"
      using True by (simp add: power_int_nonneg_exp)
    also have "2 powi (53 - ?b) * 2 powi (?b - 1 + k - 52) = (2::rat) powi k"
      by (simp add: power_int_add[symmetric])
    finally show ?thesis .
  next
    case False
    with b54 have b: "?b = 54" by simp
    with lo assms(2) have m: "m = 2 ^ 53" by simp
    from scaled have s1: "?x / 2 powi (ilog2 ?x - 52) = of_int m * 2 powi (53 - 54)"
      by (simp only: b)
    have s2: "(of_int m :: rat) * 2 powi (53 - 54) = of_int (2 ^ 52)"
      by (simp add: m power_int_minus)
    from s1 s2 have "?x / 2 powi (ilog2 ?x - 52) = of_int (2 ^ 52)"
      by (rule trans)
    then have "rne (?x / 2 powi (ilog2 ?x - 52)) = 2 ^ 52"
      by (simp only: rne_of_int)
    then have "fl ?x = of_int (2 ^ 52) * 2 powi (?b - 1 + k - 52)"
      by (simp only: fl_pos_eq[OF x] e)
    also have "\<dots> = 2 powi 52 * 2 powi (1 + k)" by (simp add: b)
    also have "\<dots> = 2 powi 53 * 2 powi k" by (simp add: power_int_add)
    finally show ?thesis by (simp add: m)
  qed
qed

lemma fl_idem_pos:
  assumes "0 < x"
  shows "fl (fl x) = fl x"
  using fl_representable_pos[of "rne (x / 2 powi (ilog2 x - 52))" "ilog2 x - 52"]
    mantissa_bounds[OF assms]
  by (simp add: fl_pos_eq[OF assms])

lemma fl_idem [simp]: "fl (fl x) = fl x"
proof (cases "0 < x")
  case True
  then show ?thesis by (rule fl_idem_pos)
next
  case False
  show ?thesis
  proof (cases "x = 0")
    case True
    then show ?thesis by simp
  next
    case False
    with \<open>\<not> 0 < x\<close> have "0 < - x" by simp
    from fl_idem_pos[OF this] show ?thesis by (simp add: fl_minus)
  qed
qed

lemma fl_of_int:
  assumes "\<bar>n\<bar> \<le> 2 ^ 53"
  shows "fl (of_int n) = of_int n"
proof (cases "0 < n")
  case True
  with assms fl_representable_pos[of n 0] show ?thesis by simp
next
  case False
  show ?thesis
  proof (cases "n = 0")
    case True
    then show ?thesis by simp
  next
    case False
    with \<open>\<not> 0 < n\<close> assms have "0 < - n" "- n \<le> 2 ^ 53" by simp_all
    from fl_representable_pos[OF this, of 0] show ?thesis by (simp add: fl_minus)
  qed
qed

lemma fl_mono_pos:
  assumes "0 < x" "x \<le> y"
  shows "fl x \<le> fl y"
proof -
  from assms have y: "0 < y" by simp
  have "ilog2 x \<le> ilog2 y"
  proof -
    from ilog2_bounds(1)[OF assms(1)] assms(2) ilog2_bounds(2)[OF y]
    have "(2::rat) powi (ilog2 x) < 2 powi (ilog2 y + 1)" by linarith
    then show ?thesis by (auto dest: pow2_less_exp)
  qed
  then consider "ilog2 x = ilog2 y" | "ilog2 x + 1 \<le> ilog2 y" by linarith
  then show ?thesis
  proof cases
    case 1
    let ?q = "(2::rat) powi (ilog2 y - 52)"
    from assms(2) have "x / ?q \<le> y / ?q" by (simp add: divide_right_mono)
    then have "rne (x / ?q) \<le> rne (y / ?q)" by (rule rne_mono)
    then have "(of_int (rne (x / ?q)) :: rat) * ?q \<le> of_int (rne (y / ?q)) * ?q"
      by (simp add: mult_right_mono)
    then show ?thesis by (simp add: fl_pos_eq[OF assms(1)] fl_pos_eq[OF y] 1)
  next
    case 2
    have "fl x \<le> 2 powi (ilog2 x + 1)" by (rule fl_pos_bounds(2)[OF assms(1)])
    also have "\<dots> \<le> 2 powi (ilog2 y)" using 2 by (rule pow2_mono)
    also have "\<dots> \<le> fl y" by (rule fl_pos_bounds(1)[OF y])
    finally show ?thesis .
  qed
qed

lemma fl_mono:
  assumes "x \<le> y"
  shows "fl x \<le> fl y"
proof -
  consider "0 < x" | "x \<le> 0" "0 \<le> y" | "y < 0" by linarith
  then show ?thesis
  proof cases
    case 1
    then show ?thesis using assms by (rule fl_mono_pos)
  next
    case 2
    then have "fl x \<le> 0" "0 \<le> fl y" by simp_all
    then show ?thesis by (rule order_trans)
  next
    case 3
    with assms have "0 < - y" "- y \<le> - x" by simp_all
    from fl_mono_pos[OF this] show ?thesis by (simp add: fl_minus)
  qed
qed

lemma rne_nearest: "\<bar>of_int (rne y) - y\<bar> \<le> 1 / 2"
proof -
  have "of_int \<lfloor>y\<rfloor> \<le> y" "y < of_int \<lfloor>y\<rfloor> + 1" by linarith+
  then show ?thesis
    unfolding rne_def Let_def
    by (simp add: abs_if) linarith
qed

lemma fl_nearest:
  assumes "0 < x"
  shows "\<bar>fl x - x\<bar> \<le> 2 powi (ilog2 x - 53)"
proof -
  let ?q = "(2::rat) powi (ilog2 x - 52)"
  have q: "0 < ?q" by simp
  have "fl x - x = (of_int (rne (x / ?q)) - x / ?q) * ?q"
    using q by (simp add: fl_pos_eq[OF assms] field_simps)
  then have "\<bar>fl x - x\<bar> = \<bar>of_int (rne (x / ?q)) - x / ?q\<bar> * ?q"
    using q by (simp add: abs_mult)
  also have "\<dots> \<le> 1 / 2 * ?q"
    using rne_nearest[of "x / ?q"] q by (intro mult_right_mono) simp_all
  also have "1 / 2 * ?q = 2 powi (ilog2 x - 53)"
    by (simp add: power_int_diff)
  finally show ?thesis .
qed

lemma fl_1 [simp]: "fl 1 = 1"
  using fl_of_int [of 1] by simp

lemma fl_numeral: "numeral n \<le> (9007199254740992::rat) \<Longrightarrow> fl (numeral n) = numeral n"
  using fl_of_int [of "numeral n"] by simp

lemma parseFloat_idem [simp]:
  "parseFloat (parseFloat x) = parseFloat x" "parseFloat (js_add a b) = js_add a b"
  "parseFloat (js_sub a b) = js_sub a b" "parseFloat (js_mul a b) = js_mul a b"
  by (simp_all add: parseFloat_def js_add_def js_sub_def js_mul_def)

lemma parseFloat_pos_iff [simp]: "0 < parseFloat x \<longleftrightarrow> 0 < x"
  by (simp add: parseFloat_def)

lemma parseFloat_0 [simp]: "parseFloat 0 = 0"
  by (simp add: parseFloat_def)

lemma parseFloat_ge_numeral:
  "numeral n \<le> x \<Longrightarrow> numeral n \<le> (9007199254740992::rat) \<Longrightarrow> numeral n \<le> parseFloat x"
  using fl_mono [of "numeral n" x] by (simp add: parseFloat_def fl_numeral)

subsection \<open>The roundings of the examples\<close>

text \<open>
  The roundings that the examples meet, each computed from the definition of \<open>fl\<close>: on the
  left the exact value of a stored decimal, of a literal or of an operation on two
  doubles, on the right the double nearest to it.
\<close>

lemma rounding_rates:
  "fl (3 / 200) = 1080863910568919 / 72057594037927936"
  "fl (1 / 20) = 3602879701896397 / 72057594037927936"
  "fl (1 / 10) = 3602879701896397 / 36028797018963968"
  "fl (1 / 5) = 3602879701896397 / 18014398509481984"
  "fl (75660473739824333 / 72057594037927936) = 4728779608739021 / 4503599627370496"
  by code_simp+

lemma rounding_lagos:
  "fl (2026619832316723125 / 4503599627370496) = 450"
  "fl (53232547595519265675 / 18014398509481984) = 2955"
  "fl (53232547595519265675 / 9007199254740992) = 5910"
  "fl (2955487255461888125 / 281474976710656) = 10500"
  "fl (2955487255461888125 / 140737488355328) = 21000"
  by code_simp+

lemma rounding_pair:
  "fl (675539944105574375 / 2251799813685248) = 300"
  "fl (17744182531839755225 / 9007199254740992) = 1970"
  "fl (17744182531839755225 / 4503599627370496) = 3940"
  by code_simp+

lemma rounding_threshold:
  "fl (256057 / 25) = 5630752977468785 / 549755813888"
  "fl (26626589861700918660698238959485 / 2475880078570760549798248448) = 5912290626342225 / 549755813888"
  "fl (452518 / 25) = 621936003472425 / 34359738368"
  "fl (2940998291161044297531594995925 / 154742504910672534362390528) = 2612131214584185 / 137438953472"
  "fl (48099424400000001 / 100000000000) = 8263418190176977 / 17179869184"
  "fl (244622803 / 500) = 4202587754963403 / 8589934592"
  "fl (68719476736000001 / 137438953472) = 500000"
  "fl (274877906944000017 / 549755813888) = 8589934592000001 / 17179869184"
  "fl (8589934592000001 / 17179869184) = 8589934592000001 / 17179869184"
  "fl (25000000000000003 / 50000000000) = 8589934592000001 / 17179869184"
  by code_simp+

lemma rounding_repayment:
  "fl (9999999999999999 / 50000000000000000) = 7205759403792793 / 36028797018963968"
  "fl (7205759403792793 / 36028797018963968) = 7205759403792793 / 36028797018963968"
  "fl (3 / 10) = 5404319552844595 / 18014398509481984"
  by code_simp+

lemma rounding_pot_30:
  "fl (2026619832316723 / 4503599627370496) = 2026619832316723 / 4503599627370496"
  "fl (11249999999999999 / 25000000000000000) = 2026619832316723 / 4503599627370496"
  "fl (16212958658533785 / 36028797018963968) = 2026619832316723 / 4503599627370496"
  "fl (9 / 20) = 8106479329266893 / 18014398509481984"
  "fl (591 / 100) = 1663517112359977 / 281474976710656"
  "fl (29967260189395345435475116514345 / 5070602400912917605986812821504) = 1663517112359977 / 281474976710656"
  "fl (591 / 25) = 1663517112359977 / 70368744177664"
  "fl (1663517112359977 / 70368744177664) = 1663517112359977 / 70368744177664"
  "fl (591 / 20) = 8317585561799885 / 281474976710656"
  "fl (133081368988798157 / 4503599627370496) = 8317585561799885 / 281474976710656"
  "fl (2750403597870039 / 274877906944) = 2750403597870039 / 274877906944"
  "fl (1000591 / 100) = 2750403597870039 / 274877906944"
  "fl (2816413284218919977 / 281474976710656) = 2750403597870039 / 274877906944"
  "fl (2750403597870039 / 68719476736) = 2750403597870039 / 68719476736"
  "fl (1000591 / 25) = 2750403597870039 / 68719476736"
  "fl (2816413284218919977 / 70368744177664) = 2750403597870039 / 68719476736"
  "fl (4503601653990328316723 / 4503599627370496) = 4294969228735283 / 4294967296"
  "fl (20000009 / 20) = 4294969228735283 / 4294967296"
  by code_simp+

lemma rounding_pot_430:
  "fl (232385740772317585 / 36028797018963968) = 7262054399134925 / 1125899906842624"
  "fl (129 / 20) = 7262054399134925 / 1125899906842624"
  "fl (7262054399134925 / 1125899906842624) = 7262054399134925 / 1125899906842624"
  "fl (8471 / 100) = 5960936319289917 / 70368744177664"
  "fl (26845670586333330361006452333609 / 316912650057057350374175801344) = 2980468159644959 / 35184372088832"
  "fl (8471000000000001 / 100000000000000) = 2980468159644959 / 35184372088832"
  "fl (8471 / 25) = 5960936319289917 / 17592186044416"
  "fl (11921872638579835 / 35184372088832) = 2980468159644959 / 8796093022208"
  "fl (33884000000000003 / 100000000000000) = 2980468159644959 / 8796093022208"
  "fl (476874905543193395 / 1125899906842624) = 7451170399112397 / 17592186044416"
  "fl (8471 / 20) = 7451170399112397 / 17592186044416"
  "fl (14902340798224795 / 35184372088832) = 3725585199556199 / 8796093022208"
  "fl (42355000000000007 / 100000000000000) = 3725585199556199 / 8796093022208"
  "fl (1386031988468613 / 137438953472) = 1386031988468613 / 137438953472"
  "fl (354824189047964959 / 35184372088832) = 1386031988468613 / 137438953472"
  "fl (1386031988468613 / 34359738368) = 1386031988468613 / 34359738368"
  "fl (354824189047964959 / 8796093022208) = 1386031988468613 / 34359738368"
  "fl (1125907168897023134925 / 1125899906842624) = 4294994998539059 / 4294967296"
  by code_simp+

lemma rounding_pot_3000_3:
  "fl (90009 / 2000) = 6333820294687359 / 140737488355328"
  "fl (6333820294687359 / 140737488355328) = 6333820294687359 / 140737488355328"
  "fl (3565623839873209465446841354027 / 79228162514264337593543950336) = 6333820294687359 / 140737488355328"
  "fl (1463391450947963184582914898867 / 2475880078570760549798248448) = 5199010825222541 / 8796093022208"
  "fl (5910591000000001 / 10000000000000) = 5199010825222541 / 8796093022208"
  "fl (1910191 / 2000) = 8401108863092261 / 8796093022208"
  "fl (10001 / 10) = 8796972631510221 / 8796093022208"
  "fl (140751562104163535 / 140737488355328) = 8796972631510221 / 8796093022208"
  "fl (8796972631510221 / 8796093022208) = 8796972631510221 / 8796093022208"
  "fl (10001000000000001 / 10000000000000) = 4398486315755111 / 4398046511104"
  "fl (4398486315755111 / 4398046511104) = 4398486315755111 / 4398046511104"
  "fl (210021 / 200) = 2309205315771433 / 2199023255552"
  "fl (2309205315771433 / 2199023255552) = 2309205315771433 / 2199023255552"
  "fl (41598944798520778819484683033641 / 39614081257132168796771975168) = 2309205315771433 / 2199023255552"
  "fl (20001 / 10) = 4398266413429555 / 2199023255552"
  "fl (20001000000000001 / 10000000000000) = 8796532826859111 / 4398046511104"
  "fl (8796532826859111 / 4398046511104) = 8796532826859111 / 4398046511104"
  "fl (8796972631510221 / 4398046511104) = 8796972631510221 / 4398046511104"
  "fl (20796043300890163 / 8796093022208) = 5199010825222541 / 2199023255552"
  "fl (11821182000000001 / 5000000000000) = 5199010825222541 / 2199023255552"
  "fl (5910591 / 2000) = 406172720720511 / 137438953472"
  "fl (415920866017803265 / 140737488355328) = 406172720720511 / 137438953472"
  "fl (30003 / 10) = 3298864736816333 / 1099511627776"
  "fl (10112261249999999 / 2500000000000) = 4447419530993467 / 1099511627776"
  "fl (17789678123973869 / 4398046511104) = 4447419530993467 / 1099511627776"
  "fl (8089809 / 2000) = 8894839061986935 / 2199023255552"
  "fl (710021262071327359 / 140737488355328) = 5547041109932245 / 1099511627776"
  "fl (5547041109932245 / 1099511627776) = 5547041109932245 / 1099511627776"
  "fl (105910591 / 10000) = 5822496315456409 / 549755813888"
  "fl (93159941047302541 / 8796093022208) = 5822496315456409 / 549755813888"
  "fl (5822496315456409 / 549755813888) = 5822496315456409 / 549755813888"
  "fl (105910591 / 2500) = 5822496315456409 / 137438953472"
  "fl (93159941047302541 / 2199023255552) = 5822496315456409 / 137438953472"
  "fl (5822496315456409 / 137438953472) = 5822496315456409 / 137438953472"
  by code_simp+

lemma rounding_pot_2_1:
  "fl (1 / 2251799813685248) = 1 / 2251799813685248"
  "fl (63 / 2000) = 1134907106097365 / 36028797018963968"
  "fl (5111167220120220973856305088299 / 162259276829213363391578010288128) = 1134907106097365 / 36028797018963968"
  "fl (1134907106097365 / 36028797018963968) = 1134907106097365 / 36028797018963968"
  "fl (262213526657209295078405406353 / 633825300114114700748351602688) = 3726278331686349 / 9007199254740992"
  "fl (41370000000000007 / 100000000000000000) = 3726278331686349 / 9007199254740992"
  "fl (7 / 10) = 3152519739159347 / 4503599627370496"
  "fl (2500000000000001 / 2500000000000000) = 2251799813685249 / 2251799813685248"
  "fl (2251799813685249 / 2251799813685248) = 2251799813685249 / 2251799813685248"
  "fl (2578749999999999 / 2500000000000000) = 4645463015632665 / 4503599627370496"
  "fl (4645463015632665 / 4503599627370496) = 4645463015632665 / 4503599627370496"
  "fl (2063 / 2000) = 4645463015632667 / 4503599627370496"
  "fl (37163704125061333 / 36028797018963968) = 4645463015632667 / 4503599627370496"
  "fl (4645463015632667 / 4503599627370496) = 4645463015632667 / 4503599627370496"
  "fl (14905113326745395 / 9007199254740992) = 3726278331686349 / 2251799813685248"
  "fl (16548000000000003 / 10000000000000000) = 3726278331686349 / 2251799813685248"
  "fl (74525566633726971 / 36028797018963968) = 72778873665749 / 35184372088832"
  "fl (10342500000000001 / 5000000000000000) = 72778873665749 / 35184372088832"
  "fl (9457559217478041 / 4503599627370496) = 1182194902184755 / 562949953421312"
  "fl (21 / 10) = 4728779608739021 / 2251799813685248"
  "fl (5497785572860205 / 549755813888) = 5497785572860205 / 549755813888"
  "fl (100004137 / 10000) = 5497785572860205 / 549755813888"
  "fl (90075718825741606349 / 9007199254740992) = 5497785572860205 / 549755813888"
  "fl (5497785572860205 / 137438953472) = 5497785572860205 / 137438953472"
  "fl (100004137 / 2500) = 5497785572860205 / 137438953472"
  "fl (90075718825741606349 / 2251799813685248) = 5497785572860205 / 137438953472"
  by code_simp+

section \<open>Properties of the steps\<close>

text \<open>
  The equations that evaluate the examples: the definitions of the model, and the rounding
  of the whole numbers up to \<open>2\<^sup>5\<^sup>3\<close>, which are doubles.
\<close>

lemmas js_eval =
  parseFloat_def js_add_def js_sub_def js_mul_def fl_numeral fl_minus

lemmas user_eval =
  applyDefaultPenalty_def repayDebt_def escrowToVault_def save_user_def validateSync_def
  pre_save_def tier_of_def TRUST_SCORE_min_def TRUST_SCORE_max_def
  DEBT_BLACKLIST_THRESHOLD_def Let_def

lemmas payout_eval =
  processCirclePayout_def populate_payoutOrder_def currentRecipient_def trackFee_def
  depositFee_def findOne_or_new_def new_BackstopReserve_def handleDefaults_def shortfall_def
  expectedTotal_def actualCollected_def contribution_def successfulPayments_def platformFee_def
  platformFeeRate_def netPayout_def vaultAmount_def availableAmount_def withholdingRate_def
  defaultCount_def persist_def write_modified_def updateUserLedgers_def advanceCycle_def
  resetMember_def markDefaulted_def completeCircle_def validateMembers_def user_eval

lemmas contribution_eval =
  processContribution_def

lemmas example_defs =
  scenario_db_def last_round_db_def circle_db_def round_of_def reserve_of_def lagos_weekly_def
  entry_def ada_def bola_def chidi_def pair_circle_def pair_db_def pair_rounds_def

subsection \<open>The loaded circle\<close>

lemma populate_payoutOrder_fields [simp]:
  "members (populate_payoutOrder us c) = members c"
  "totalPot (populate_payoutOrder us c) = totalPot c"
  "contributionAmount (populate_payoutOrder us c) = contributionAmount c"
  "circle_status (populate_payoutOrder us c) = circle_status c"
  "currentTurn (populate_payoutOrder us c) = currentTurn c"
  "cycleCount (populate_payoutOrder us c) = cycleCount c"
  "payoutOrder (populate_payoutOrder us c) = filter (\<lambda>u. us u \<noteq> None) (payoutOrder c)"
  by (simp_all add: populate_payoutOrder_def)

lemma populate_payoutOrder_amounts [simp]:
  "expectedTotal (populate_payoutOrder us c) = expectedTotal c"
  "contribution (populate_payoutOrder us c) = contribution c"
  "shortfall (populate_payoutOrder us c) = shortfall c"
  "platformFee (populate_payoutOrder us c) = platformFee c"
  "netPayout (populate_payoutOrder us c) = netPayout c"
  "defaultCount (populate_payoutOrder us c) = defaultCount c"
  "vaultAmount (populate_payoutOrder us c) r = vaultAmount c r"
  "availableAmount (populate_payoutOrder us c) r = availableAmount c r"
  "updateUserLedgers (populate_payoutOrder us c) r = updateUserLedgers c r"
  "validateMembers us' (populate_payoutOrder us c) = validateMembers us' c"
  by (simp_all add: expectedTotal_def contribution_def shortfall_def platformFee_def
      netPayout_def defaultCount_def vaultAmount_def availableAmount_def updateUserLedgers_def
      actualCollected_def successfulPayments_def validateMembers_def)

lemma trackFee_fields [simp]:
  "shortfall (trackFee c) = shortfall c" "contribution (trackFee c) = contribution c"
  "members (trackFee c) = members c" "payoutOrder (trackFee c) = payoutOrder c"
  "circle_status (trackFee c) = circle_status c" "currentTurn (trackFee c) = currentTurn c"
  "cycleCount (trackFee c) = cycleCount c"
  by (simp_all add: shortfall_def contribution_def trackFee_def expectedTotal_def
      actualCollected_def successfulPayments_def)

lemma handleDefaults_cong_circle:
  "members c = members c' \<Longrightarrow> shortfall c = shortfall c' \<Longrightarrow> contribution c = contribution c' \<Longrightarrow>
   handleDefaults now k c res us = handleDefaults now k c' res us"
  by (simp add: handleDefaults_def Let_def)

lemma handleDefaults_populate [simp]:
  "handleDefaults now k (trackFee (populate_payoutOrder us c)) res us'
     = handleDefaults now k (trackFee c) res us'"
  by (rule handleDefaults_cong_circle) simp_all

subsection \<open>Saves\<close>

lemma save_user_Inr:
  assumes "save_user now orig doc = Inr saved"
  shows "validateSync saved" and "wallet saved = wallet doc"
    and "trustScore saved = trustScore doc" and "fullName saved = fullName doc"
    and "activeCircles saved = activeCircles doc"
  using assms
  by (auto simp: save_user_def pre_save_def Let_def validateSync_def split: if_splits)

lemma save_user_Inl: "save_user now orig doc = Inl e \<Longrightarrow> e = ValidationError"
  by (auto simp: save_user_def split: if_splits)

lemma save_user_total:
  "validateSync doc \<Longrightarrow> save_user now orig doc = Inr (pre_save now False orig doc)"
  by (simp add: save_user_def)

lemma write_modified_valid:
  "validateSync doc \<Longrightarrow> validateSync stored \<Longrightarrow> validateSync (write_modified orig doc stored)"
  by (simp add: write_modified_def validateSync_def)

lemma persist_None: "persist k orig doc us j = None \<longleftrightarrow> us j = None"
  by (simp add: persist_def split: option.splits)

lemma persist_valid:
  assumes "validateSync doc" and "\<exists>u. us j = Some u \<and> validateSync u"
  shows "\<exists>u. persist k orig doc us j = Some u \<and> validateSync u"
  using assms by (auto simp: persist_def write_modified_valid split: option.splits)

lemma applyDefaultPenalty_Inr:
  assumes "applyDefaultPenalty now amt u = Inr u'"
  shows "validateSync u'"
  using assms unfolding applyDefaultPenalty_def Let_def by (rule save_user_Inr(1))

lemma applyDefaultPenalty_Inl: "applyDefaultPenalty now amt u = Inl e \<Longrightarrow> e = ValidationError"
  unfolding applyDefaultPenalty_def Let_def by (rule save_user_Inl)

lemma applyDefaultPenalty_total:
  assumes "validateSync u"
  shows "\<exists>u'. applyDefaultPenalty now amt u = Inr u'"
  using assms
  by (simp add: applyDefaultPenalty_def save_user_def Let_def validateSync_def
      TRUST_SCORE_min_def TRUST_SCORE_max_def)

subsection \<open>Defaults\<close>

lemma penalizeDefaulters_error:
  "penalizeDefaulters now k amt pop ds loans us = (Some e, loans', us') \<Longrightarrow>
   e = TypeError \<or> e = ValidationError"
  by (induction ds arbitrary: pop loans us)
    (auto split: option.splits sum.splits dest: applyDefaultPenalty_Inl)

lemma penalizeDefaulters_dom:
  "penalizeDefaulters now k amt pop ds loans us = (e, loans', us') \<Longrightarrow>
   us' j = None \<longleftrightarrow> us j = None"
  by (induction ds arbitrary: pop loans us)
    (auto split: option.splits sum.splits simp: persist_None)

lemma penalizeDefaulters_valid:
  "penalizeDefaulters now k amt pop ds loans us = (e, loans', us') \<Longrightarrow>
   \<exists>u. us j = Some u \<and> validateSync u \<Longrightarrow> \<exists>u. us' j = Some u \<and> validateSync u"
proof (induction ds arbitrary: pop loans us)
  case Nil
  then show ?case by simp
next
  case (Cons m ds)
  show ?case
  proof (cases "pop (member_user m)")
    case None
    with Cons.prems show ?thesis by simp
  next
    case (Some doc)
    show ?thesis
    proof (cases "applyDefaultPenalty now amt doc")
      case (Inl err)
      with Some Cons.prems show ?thesis by simp
    next
      case (Inr saved)
      from applyDefaultPenalty_Inr[OF Inr] Cons.prems(2)
      have "\<exists>u. persist (member_user m) doc saved us j = Some u \<and> validateSync u"
        by (rule persist_valid)
      moreover from Cons.prems(1) Some Inr
      have "penalizeDefaulters now k amt (pop(member_user m \<mapsto> saved)) ds
              (loans @ [\<lparr>loan_circle = k, amount = amt, defaultedUser = member_user m,
                          recovered = False, createdAt = now\<rparr>])
              (persist (member_user m) doc saved us) = (e, loans', us')"
        by simp
      ultimately show ?thesis by (rule Cons.IH[rotated])
    qed
  qed
qed

lemma penalizeDefaulters_total:
  "list_all (\<lambda>m. \<exists>u. pop (member_user m) = Some u \<and> validateSync u) ds \<Longrightarrow>
   \<exists>loans' us'. penalizeDefaulters now k amt pop ds loans us = (None, loans', us')"
proof (induction ds arbitrary: pop loans us)
  case Nil
  then show ?case by simp
next
  case (Cons m ds)
  from Cons.prems obtain doc where doc: "pop (member_user m) = Some doc" "validateSync doc"
    by auto
  from applyDefaultPenalty_total[OF doc(2)] obtain saved where
    saved: "applyDefaultPenalty now amt doc = Inr saved" by blast
  from Cons.prems applyDefaultPenalty_Inr[OF saved]
  have "list_all (\<lambda>m'. \<exists>u. (pop(member_user m \<mapsto> saved)) (member_user m') = Some u \<and> validateSync u) ds"
    by (auto simp: list_all_iff)
  then have "\<exists>loans' us'. penalizeDefaulters now k amt (pop(member_user m \<mapsto> saved)) ds
          (loans @ [\<lparr>loan_circle = k, amount = amt, defaultedUser = member_user m,
                      recovered = False, createdAt = now\<rparr>])
          (persist (member_user m) doc saved us) = (None, loans', us')"
    by (rule Cons.IH)
  with doc saved show ?case by simp
qed

lemma handleDefaults_None:
  assumes "handleDefaults now k c res us = (None, loan, res', ms, us')"
  shows "\<not> (shortfall c > 0 \<and> parseFloat (balance res) < shortfall c)"
    and "loan = (if shortfall c > 0 then shortfall c else 0)"
    and "balance res' = (if shortfall c > 0 then js_sub (parseFloat (balance res)) (shortfall c)
                         else balance res)"
    and "totalDeployed res' =
          (if shortfall c > 0 then js_add (parseFloat (totalDeployed res)) (shortfall c)
           else totalDeployed res)"
  using assms unfolding handleDefaults_def Let_def
  by (auto split: if_splits prod.splits)

lemma handleDefaults_insufficient:
  "shortfall c > 0 \<Longrightarrow> parseFloat (balance res) < shortfall c \<Longrightarrow>
   handleDefaults now k c res us
     = (Some (ReserveInsufficient (shortfall c) (parseFloat (balance res))), 0, res, members c, us)"
  by (simp add: handleDefaults_def)

lemma handleDefaults_error:
  assumes "handleDefaults now k c res us = (Some e, loan, res', ms, us')"
  shows "(shortfall c > 0 \<and> parseFloat (balance res) < shortfall c \<and>
          e = ReserveInsufficient (shortfall c) (parseFloat (balance res)) \<and> us' = us)
         \<or> (shortfall c > 0 \<and> \<not> parseFloat (balance res) < shortfall c \<and>
             (e = TypeError \<or> e = ValidationError))"
  using assms unfolding handleDefaults_def Let_def
  by (auto split: if_splits prod.splits dest: penalizeDefaulters_error)

lemma handleDefaults_total:
  assumes "list_all (\<lambda>m. \<exists>u. us (member_user m) = Some u \<and> validateSync u) (members c)"
    and "\<not> (shortfall c > 0 \<and> parseFloat (balance res) < shortfall c)"
  shows "\<exists>loan res' ms us'. handleDefaults now k c res us = (None, loan, res', ms, us')"
proof -
  have "list_all (\<lambda>m. \<exists>u. us (member_user m) = Some u \<and> validateSync u)
          (filter (\<lambda>m. paymentStatus m \<noteq> Paid) (members c))"
    using assms(1) by (simp add: list_all_iff)
  from penalizeDefaulters_total[OF this]
  obtain loans' us' where
    "penalizeDefaulters now k (contribution c) us
       (filter (\<lambda>m. paymentStatus m \<noteq> Paid) (members c))
       (activeLoans (res\<lparr>balance := js_sub (parseFloat (balance res)) (shortfall c),
                            totalDeployed := js_add (parseFloat (totalDeployed res)) (shortfall c)\<rparr>)) us
     = (None, loans', us')"
    by blast
  with assms(2) show ?thesis
    unfolding handleDefaults_def Let_def
    by auto
qed

lemma handleDefaults_dom:
  assumes "handleDefaults now k c res us = (e, loan, res', ms, us')"
  shows "us' j = None \<longleftrightarrow> us j = None"
  using assms unfolding handleDefaults_def Let_def
  by (auto split: if_splits prod.splits dest: penalizeDefaulters_dom)

lemma handleDefaults_valid:
  assumes "handleDefaults now k c res us = (e, loan, res', ms, us')"
    and "\<exists>u. us j = Some u \<and> validateSync u"
  shows "\<exists>u. us' j = Some u \<and> validateSync u"
  using assms unfolding handleDefaults_def Let_def
  by (auto split: if_splits prod.splits dest: penalizeDefaulters_valid)

lemma handleDefaults_members:
  assumes "handleDefaults now k c res us = (e, loan, res', ms, us')"
  shows "map member_user ms = map member_user (members c)"
  using assms unfolding handleDefaults_def Let_def
  by (auto split: if_splits prod.splits simp: markDefaulted_def)

subsection \<open>Rotation and completion\<close>

lemma releaseVaults_error:
  "releaseVaults now k ms us = (Some e, us') \<Longrightarrow> e = TypeError \<or> e = ValidationError"
  by (induction ms arbitrary: us)
    (auto split: option.splits if_splits sum.splits simp: Let_def dest: save_user_Inl)

lemma releaseVaults_dom:
  "releaseVaults now k ms us = (e, us') \<Longrightarrow> us' j = None \<longleftrightarrow> us j = None"
  by (induction ms arbitrary: us)
    (auto split: option.splits if_splits sum.splits simp: Let_def persist_None)

lemma releaseVaults_total:
  "list_all (\<lambda>m. \<exists>u. us (member_user m) = Some u \<and> validateSync u) ms \<Longrightarrow>
   \<exists>us'. releaseVaults now k ms us = (None, us')"
proof (induction ms arbitrary: us)
  case Nil
  then show ?case by simp
next
  case (Cons m ms)
  from Cons.prems obtain u where u: "us (member_user m) = Some u" "validateSync u"
    by auto
  let ?doc = "u\<lparr>wallet := (wallet u)\<lparr>availableBalance :=
                    js_add (parseFloat (availableBalance (wallet u)))
                      (parseFloat (vaultBalance (wallet u))),
                  vaultBalance := 0\<rparr>,
                activeCircles := filter (\<lambda>c. c \<noteq> k) (activeCircles u)\<rparr>"
  have valid: "validateSync ?doc"
    using u(2) by (simp add: validateSync_def)
  let ?saved = "pre_save now False u ?doc"
  have saved: "save_user now u ?doc = Inr ?saved"
    using valid by (rule save_user_total)
  show ?case
  proof (cases "0 < vaultBalance (wallet u)")
    case True
    from save_user_Inr(1)[OF saved] Cons.prems
    have "list_all (\<lambda>m'. \<exists>u'. persist (member_user m) u ?saved us (member_user m') = Some u'
                            \<and> validateSync u') ms"
      by (auto simp: list_all_iff intro!: persist_valid)
    from Cons.IH[OF this] u(1) True saved show ?thesis
      by (simp add: Let_def)
  next
    case False
    from Cons.prems have "list_all (\<lambda>m. \<exists>u. us (member_user m) = Some u \<and> validateSync u) ms"
      by simp
    from Cons.IH[OF this] u(1) False show ?thesis
      by (simp add: Let_def)
  qed
qed

lemma advanceCycle_circle:
  assumes "advanceCycle now k c us = (e, c', us')"
  shows "payoutOrder c' = payoutOrder c"
    and "currentTurn c' = (currentTurn c + 1) mod length (payoutOrder c)"
    and "cycleCount c' = (if currentTurn c' = 0 then cycleCount c + 1 else cycleCount c)"
    and "circle_status c' =
          (if currentTurn c' = 0 \<and> length (payoutOrder c) \<le> cycleCount c + 1
           then Completed else circle_status c)"
    and "totalPot c' = totalPot c" and "contributionAmount c' = contributionAmount c"
    and "map member_user (members c') = map member_user (members c)"
  using assms unfolding advanceCycle_def completeCircle_def Let_def
  by (auto split: if_splits prod.splits simp: resetMember_def)

lemma advanceCycle_total:
  "list_all (\<lambda>m. \<exists>u. us (member_user m) = Some u \<and> validateSync u) (members c) \<Longrightarrow>
   \<exists>c' us'. advanceCycle now k c us = (None, c', us')"
  using releaseVaults_total[of us "map resetMember (members c)" now k]
  unfolding advanceCycle_def completeCircle_def Let_def
  by (auto simp: list_all_iff resetMember_def split: prod.splits)

lemma advanceCycle_active:
  assumes "advanceCycle now k c us = (None, c', us')" "circle_status c' \<noteq> Completed"
  shows "us' = us"
  using assms unfolding advanceCycle_def completeCircle_def Let_def
  by (auto split: if_splits prod.splits)

lemma advanceCycle_error:
  "advanceCycle now k c us = (Some e, c', us') \<Longrightarrow> e = TypeError \<or> e = ValidationError"
  unfolding advanceCycle_def completeCircle_def Let_def
  by (auto split: if_splits prod.splits dest: releaseVaults_error)

lemma advanceCycle_dom:
  assumes "advanceCycle now k c us = (e, c', us')"
  shows "us' j = None \<longleftrightarrow> us j = None"
  using assms unfolding advanceCycle_def completeCircle_def Let_def
  by (auto split: if_splits prod.splits dest: releaseVaults_dom)

subsection \<open>The payout\<close>

lemma payout_Inr_elim:
  assumes "processCirclePayout now k d = (Inr rc, d')"
  obtains c rid r loan3 res3 ms3 us3 saved c6 us6 where
    "circles d k = Some c" "circle_status c = Circle_Active"
    "currentRecipient (populate_payoutOrder (users d) c) = Some rid" "users d rid = Some r"
    "handleDefaults now k (trackFee c) (depositFee (platformFee c) (findOne_or_new d)) (users d)
      = (None, loan3, res3, ms3, us3)"
    "save_user now r (updateUserLedgers c r) = Inr saved"
    "advanceCycle now k ((trackFee (populate_payoutOrder (users d) c))\<lparr>members := ms3\<rparr>)
       (persist rid r saved us3)
      = (None, c6, us6)"
    "validateMembers (users d) c"
    "rc = \<lparr>rc_recipient = fullName r, rc_grossAmount = expectedTotal c,
           rc_platformFee = platformFee c, rc_netPayout = netPayout c,
           rc_withheldInVault = vaultAmount c r, rc_availableNow = availableAmount c r,
           rc_defaultsCovered = defaultCount c, rc_backstopLoan = loan3,
           rc_nextTurn = currentTurn c6\<rparr>"
    "d' = d\<lparr>users := us6, circles := (circles d)(k \<mapsto> c6\<lparr>payoutOrder := payoutOrder c\<rparr>),
            backstop := Some res3\<rparr>"
  using assms
  unfolding processCirclePayout_def Let_def
  by (auto split: option.splits if_splits prod.splits sum.splits)

lemma payout_insufficient:
  assumes "circles d k = Some c" "circle_status c = Circle_Active"
    "currentRecipient (populate_payoutOrder (users d) c) = Some rid" "users d rid = Some r"
    "0 < shortfall c"
    "js_add (parseFloat (balance (findOne_or_new d))) (platformFee c) < shortfall c"
  shows "processCirclePayout now k d =
          (Inl (ReserveInsufficient (shortfall c)
                 (js_add (parseFloat (balance (findOne_or_new d))) (platformFee c))), d)"
proof -
  let ?have = "js_add (parseFloat (balance (findOne_or_new d))) (platformFee c)"
  have "handleDefaults now k (trackFee c) (depositFee (platformFee c) (findOne_or_new d)) (users d)
        = (Some (ReserveInsufficient (shortfall c) ?have),
           0, depositFee (platformFee c) (findOne_or_new d), members c, users d)"
    using assms(5,6) handleDefaults_insufficient[of "trackFee c"
        "depositFee (platformFee c) (findOne_or_new d)" now k "users d"]
    by (simp add: depositFee_def)
  with assms(1-4) show ?thesis
    by (simp add: processCirclePayout_def Let_def)
qed

lemma payout_error_kinds:
  assumes "processCirclePayout now k d = (Inl (ReserveInsufficient need have), d')"
  shows "\<exists>c. circles d k = Some c \<and> circle_status c = Circle_Active \<and> 0 < shortfall c \<and>
             js_add (parseFloat (balance (findOne_or_new d))) (platformFee c) < shortfall c \<and>
             need = shortfall c \<and>
             have = js_add (parseFloat (balance (findOne_or_new d))) (platformFee c) \<and> d' = d"
  using assms unfolding processCirclePayout_def Let_def
  by (auto split: option.splits if_splits prod.splits sum.splits
      dest!: handleDefaults_error advanceCycle_error save_user_Inl simp: depositFee_def)

lemma payout_succeeds:
  assumes c: "circles d k = Some c" "circle_status c = Circle_Active"
    "currentRecipient (populate_payoutOrder (users d) c) = Some rid" "users d rid = Some r"
    and ok: "\<not> (0 < shortfall c \<and>
                js_add (parseFloat (balance (findOne_or_new d))) (platformFee c) < shortfall c)"
    and refs: "list_all (\<lambda>m. \<exists>u. users d (member_user m) = Some u \<and> validateSync u) (members c)"
    and r: "validateSync r"
  shows "\<exists>rc d'. processCirclePayout now k d = (Inr rc, d')"
proof -
  let ?res1 = "depositFee (platformFee c) (findOne_or_new d)"
  have "\<exists>loan3 res3 ms3 us3.
          handleDefaults now k (trackFee c) ?res1 (users d) = (None, loan3, res3, ms3, us3)"
    using refs ok by (intro handleDefaults_total) (simp_all add: depositFee_def)
  then obtain loan3 res3 ms3 us3 where
    hd: "handleDefaults now k (trackFee c) ?res1 (users d) = (None, loan3, res3, ms3, us3)"
    by blast
  have "validateSync (updateUserLedgers c r)"
    using r by (simp add: updateUserLedgers_def validateSync_def Let_def TRUST_SCORE_max_def)
  then have sv: "save_user now r (updateUserLedgers c r)
                  = Inr (pre_save now False r (updateUserLedgers c r))"
    by (rule save_user_total)
  let ?saved = "pre_save now False r (updateUserLedgers c r)"
  let ?us5 = "persist rid r ?saved us3"
  have ms3: "map member_user ms3 = map member_user (members c)"
    using handleDefaults_members[OF hd] by simp
  have "\<exists>u. ?us5 (member_user m) = Some u \<and> validateSync u" if "m \<in> set (members c)" for m
  proof -
    from refs that have "\<exists>u. users d (member_user m) = Some u \<and> validateSync u"
      by (simp add: list_all_iff)
    with hd have "\<exists>u. us3 (member_user m) = Some u \<and> validateSync u"
      by (rule handleDefaults_valid)
    with save_user_Inr(1)[OF sv] show ?thesis by (rule persist_valid)
  qed
  moreover have "member_user ` set ms3 = member_user ` set (members c)"
    using ms3 by (metis list.set_map)
  ultimately have "list_all (\<lambda>m. \<exists>u. ?us5 (member_user m) = Some u \<and> validateSync u)
                     (members ((trackFee (populate_payoutOrder (users d) c))\<lparr>members := ms3\<rparr>))"
    by (simp add: list_all_iff) (metis (no_types, lifting) image_iff)
  from advanceCycle_total[OF this] obtain c6 us6 where
    "advanceCycle now k ((trackFee (populate_payoutOrder (users d) c))\<lparr>members := ms3\<rparr>) ?us5
      = (None, c6, us6)"
    by blast
  moreover have "validateMembers (users d) c"
    using refs by (auto simp: validateMembers_def list_all_iff)
  ultimately show ?thesis
    using c hd sv by (simp add: processCirclePayout_def Let_def)
qed

lemma payout_receipt:
  assumes "processCirclePayout now k d = (Inr rc, d')"
    and "circles d k = Some c"
    and "currentRecipient (populate_payoutOrder (users d) c) = Some rid"
    and "users d rid = Some r"
  shows "rc_grossAmount rc = expectedTotal c" and "rc_platformFee rc = platformFee c"
    and "rc_netPayout rc = netPayout c" and "rc_withheldInVault rc = vaultAmount c r"
    and "rc_availableNow rc = availableAmount c r" and "rc_defaultsCovered rc = defaultCount c"
    and "rc_recipient rc = fullName r"
  using assms unfolding processCirclePayout_def Let_def
  by (auto split: option.splits if_splits prod.splits sum.splits)

lemma payout_reserve:
  assumes "processCirclePayout now k d = (Inr rc, d')" and "circles d k = Some c"
  shows "\<exists>res'. backstop d' = Some res' \<and>
           balance res' =
             (if 0 < shortfall c
              then js_sub (js_add (parseFloat (balance (findOne_or_new d))) (platformFee c))
                     (shortfall c)
              else js_add (parseFloat (balance (findOne_or_new d))) (platformFee c)) \<and>
           totalDeployed res' =
             (if 0 < shortfall c
              then js_add (parseFloat (totalDeployed (findOne_or_new d))) (shortfall c)
              else totalDeployed (findOne_or_new d)) \<and>
           rc_backstopLoan rc = (if 0 < shortfall c then shortfall c else 0)"
proof -
  from assms(1) obtain c0 rid0 r0 loan3 res3 ms3 us3 saved c6 us6 where
    c0: "circles d k = Some c0"
    and hd: "handleDefaults now k (trackFee c0) (depositFee (platformFee c0) (findOne_or_new d))
               (users d) = (None, loan3, res3, ms3, us3)"
    and rc: "rc = \<lparr>rc_recipient = fullName r0, rc_grossAmount = expectedTotal c0,
           rc_platformFee = platformFee c0, rc_netPayout = netPayout c0,
           rc_withheldInVault = vaultAmount c0 r0, rc_availableNow = availableAmount c0 r0,
           rc_defaultsCovered = defaultCount c0, rc_backstopLoan = loan3,
           rc_nextTurn = currentTurn c6\<rparr>"
    and d': "d' = d\<lparr>users := us6, circles := (circles d)(k \<mapsto> c6\<lparr>payoutOrder := payoutOrder c0\<rparr>),
                   backstop := Some res3\<rparr>"
    by (rule payout_Inr_elim)
  from c0 assms(2) have eq: "c0 = c" by simp
  from handleDefaults_None(2-4)[OF hd] show ?thesis
    by (simp add: d' rc eq depositFee_def)
qed

lemma payout_users_dom:
  assumes "processCirclePayout now k d = (Inr rc, d')"
  shows "users d' j = None \<longleftrightarrow> users d j = None"
proof -
  from assms obtain c rid r loan3 res3 ms3 us3 saved c6 us6 where
    hd: "handleDefaults now k (trackFee c) (depositFee (platformFee c) (findOne_or_new d))
               (users d) = (None, loan3, res3, ms3, us3)"
    and ac: "advanceCycle now k ((trackFee (populate_payoutOrder (users d) c))\<lparr>members := ms3\<rparr>)
               (persist rid r saved us3)
             = (None, c6, us6)"
    and d': "d' = d\<lparr>users := us6, circles := (circles d)(k \<mapsto> c6\<lparr>payoutOrder := payoutOrder c\<rparr>),
                   backstop := Some res3\<rparr>"
    by (rule payout_Inr_elim)
  from advanceCycle_dom[OF ac, of j] handleDefaults_dom[OF hd, of j] show ?thesis
    by (simp add: d' persist_None)
qed

lemma payout_circle:
  assumes "processCirclePayout now k d = (Inr rc, d')" and "circles d k = Some c"
  shows "\<exists>c'. circles d' k = Some c' \<and> payoutOrder c' = payoutOrder c \<and>
           filter (\<lambda>u. users d u \<noteq> None) (payoutOrder c) \<noteq> [] \<and>
           currentTurn c' = (currentTurn c + 1)
             mod length (filter (\<lambda>u. users d u \<noteq> None) (payoutOrder c)) \<and>
           cycleCount c' = (if currentTurn c' = 0 then cycleCount c + 1 else cycleCount c) \<and>
           circle_status c' =
             (if currentTurn c' = 0 \<and>
                 length (filter (\<lambda>u. users d u \<noteq> None) (payoutOrder c)) \<le> cycleCount c + 1
              then Completed else Circle_Active)"
proof -
  from assms(1) obtain c0 rid r loan3 res3 ms3 us3 saved c6 us6 where
    c0: "circles d k = Some c0" and st: "circle_status c0 = Circle_Active"
    and rid: "currentRecipient (populate_payoutOrder (users d) c0) = Some rid"
    and ac: "advanceCycle now k ((trackFee (populate_payoutOrder (users d) c0))\<lparr>members := ms3\<rparr>)
               (persist rid r saved us3)
             = (None, c6, us6)"
    and d': "d' = d\<lparr>users := us6, circles := (circles d)(k \<mapsto> c6\<lparr>payoutOrder := payoutOrder c0\<rparr>),
                   backstop := Some res3\<rparr>"
    by (rule payout_Inr_elim)
  from c0 assms(2) have eq: "c0 = c" by simp
  from rid have ne: "filter (\<lambda>u. users d u \<noteq> None) (payoutOrder c) \<noteq> []"
    by (auto simp: currentRecipient_def eq split: if_splits)
  from advanceCycle_circle(2-4)[OF ac] st ne show ?thesis
    by (simp add: d' eq)
qed

subsection \<open>Contributions and rounds\<close>

lemma processContribution_circle:
  assumes "processContribution now k' u d = (Inr x, d1)" and "circles d k = Some c"
  shows "\<exists>c1. circles d1 k = Some c1 \<and> payoutOrder c1 = payoutOrder c \<and>
               currentTurn c1 = currentTurn c \<and> cycleCount c1 = cycleCount c"
  using assms unfolding processContribution_def
  by (auto split: option.splits if_splits sum.splits)

lemma processContribution_dom:
  assumes "processContribution now k' u d = (Inr x, d1)"
  shows "users d1 j = None \<longleftrightarrow> users d j = None"
  using assms unfolding processContribution_def
  by (auto split: option.splits if_splits sum.splits)

lemma contributeAll_circle:
  "contributeAll xs d = Some d1 \<Longrightarrow> circles d k = Some c \<Longrightarrow>
   (\<exists>c1. circles d1 k = Some c1 \<and> payoutOrder c1 = payoutOrder c \<and>
        currentTurn c1 = currentTurn c \<and> cycleCount c1 = cycleCount c) \<and>
   (\<forall>j. users d1 j = None \<longleftrightarrow> users d j = None)"
proof (induction xs arbitrary: d c)
  case Nil
  then show ?case by simp
next
  case (Cons x xs)
  obtain now k' u where x: "x = (now, k', u)" by (cases x)
  from Cons.prems(1) x obtain paid d0 where
    step: "processContribution now k' u d = (Inr paid, d0)" and rest: "contributeAll xs d0 = Some d1"
    by (auto split: prod.splits sum.splits)
  from processContribution_circle[OF step Cons.prems(2)] obtain c0 where
    c0: "circles d0 k = Some c0" "payoutOrder c0 = payoutOrder c"
    "currentTurn c0 = currentTurn c" "cycleCount c0 = cycleCount c"
    by blast
  from Cons.IH[OF rest c0(1)] c0(2-4) processContribution_dom[OF step] show ?case by auto
qed

lemma fullRounds_rotation:
  assumes "fullRounds k rounds d = Some d'" and "circles d k = Some c"
    and "cycleCount c = 0" and "currentTurn c + length rounds = length (payoutOrder c)"
    and "rounds \<noteq> []" and "list_all (\<lambda>u. users d u \<noteq> None) (payoutOrder c)"
  shows "\<exists>c'. circles d' k = Some c' \<and> payoutOrder c' = payoutOrder c \<and>
              cycleCount c' = 1 \<and> currentTurn c' = 0"
  using assms
proof (induction rounds arbitrary: d c)
  case Nil
  then show ?case by simp
next
  case (Cons round rounds)
  obtain contributions now where round: "round = (contributions, now)" by (cases round)
  from Cons.prems(1) round obtain d1 c1 rc d2 where
    d1: "contributeAll contributions d = Some d1" and c1: "circles d1 k = Some c1"
    and run: "processCirclePayout now k d1 = (Inr rc, d2)"
    and rest: "fullRounds k rounds d2 = Some d'"
    by (auto split: option.splits if_splits prod.splits sum.splits)
  from contributeAll_circle[OF d1 Cons.prems(2)] c1
  have same: "payoutOrder c1 = payoutOrder c" "currentTurn c1 = currentTurn c"
    "cycleCount c1 = cycleCount c"
    and dom1: "\<And>j. users d1 j = None \<longleftrightarrow> users d j = None"
    by auto
  from dom1 Cons.prems(6) have all1: "list_all (\<lambda>u. users d1 u \<noteq> None) (payoutOrder c)"
    by (simp add: list_all_iff)
  then have full: "filter (\<lambda>u. users d1 u \<noteq> None) (payoutOrder c) = payoutOrder c"
    by (simp add: list_all_iff)
  from payout_circle[OF run c1] same full Cons.prems(3) obtain c2 where
    c2: "circles d2 k = Some c2" "payoutOrder c2 = payoutOrder c"
    "currentTurn c2 = (currentTurn c + 1) mod length (payoutOrder c)"
    "cycleCount c2 = (if currentTurn c2 = 0 then 1 else 0)"
    by auto
  from payout_users_dom[OF run] all1 c2(2)
  have all2: "list_all (\<lambda>u. users d2 u \<noteq> None) (payoutOrder c2)"
    by (simp add: list_all_iff)
  show ?case
  proof (cases "rounds = []")
    case True
    with Cons.prems(4) have "currentTurn c + 1 = length (payoutOrder c)" by simp
    with c2 have "currentTurn c2 = 0" "cycleCount c2 = 1" by simp_all
    with True rest c2(1,2) show ?thesis by simp
  next
    case False
    with Cons.prems(4) have lt: "currentTurn c + 1 < length (payoutOrder c)"
      by (cases rounds) simp_all
    with c2 have t2: "currentTurn c2 = currentTurn c + 1" "cycleCount c2 = 0" by simp_all
    with Cons.prems(4) c2(2)
    have "currentTurn c2 + length rounds = length (payoutOrder c2)" by simp
    from Cons.IH[OF rest c2(1) t2(2) this False all2] c2(2) show ?thesis by simp
  qed
qed

section \<open>The wallet and the reputation\<close>

text \<open>
  Claim C6. On a user that satisfies the schema's validators, a default penalty is saved:
  the debt becomes the number \<open>debt + baseAmount * (1 + 0.05)\<close>, each operation rounded as
  the program computes it. When this new debt is strictly above 500000, is larger than
  the debt before, and the account is not yet blacklisted, the save makes the account
  Blacklisted, stamps \<open>blacklistedAt\<close> with the time of the save and sets the reason to
  Excessive Debt; on an account that is already blacklisted nothing is stamped again,
  whatever the debt; and a new debt of at most 500000 leaves status, stamp and reason as
  they were.
\<close>

theorem auto_blacklist_once:
  assumes "validateSync u"
  shows "\<exists>u'. applyDefaultPenalty now baseAmount u = Inr u' \<and>
           debtBalance (wallet u')
             = js_add (parseFloat (debtBalance (wallet u))) (js_mul baseAmount (js_add 1 (fl 0.05))) \<and>
           (500000 < debtBalance (wallet u') \<and>
            parseFloat (debtBalance (wallet u)) < debtBalance (wallet u') \<and>
            status u \<noteq> Blacklisted
              \<longrightarrow> status u' = Blacklisted \<and> blacklistedAt u' = Some now \<and>
                  blacklistReason u' = Some Excessive_Debt) \<and>
           (status u = Blacklisted
              \<longrightarrow> status u' = Blacklisted \<and> blacklistedAt u' = blacklistedAt u \<and>
                  blacklistReason u' = blacklistReason u) \<and>
           (debtBalance (wallet u') \<le> 500000
              \<longrightarrow> status u' = status u \<and> blacklistedAt u' = blacklistedAt u \<and>
                  blacklistReason u' = blacklistReason u)"
  using assms
  by (auto simp: applyDefaultPenalty_def save_user_def pre_save_def Let_def validateSync_def
      TRUST_SCORE_min_def TRUST_SCORE_max_def DEBT_BLACKLIST_THRESHOLD_def)

theorem auto_blacklist_once_witness:
  "validateSync risky_user \<and>
   (\<exists>u'. applyDefaultPenalty 7 20000 risky_user = Inr u' \<and>
      debtBalance (wallet u') = 511000 \<and> status u' = Blacklisted \<and>
      blacklistedAt u' = Some 7 \<and> blacklistReason u' = Some Excessive_Debt \<and>
      (\<exists>u''. applyDefaultPenalty 9 20000 u' = Inr u'' \<and>
         debtBalance (wallet u'') = 532000 \<and> status u'' = Blacklisted \<and>
         blacklistedAt u'' = Some 7)) \<and>
   (\<exists>u'. applyDefaultPenalty 7 (fl 10242.28) (owing_with 0 489245.606) = Inr u' \<and>
      debtBalance (wallet u') = fl 500000.00000000006 \<and> status u' = Blacklisted \<and>
      blacklistedAt u' = Some 7) \<and>
   (\<exists>u'. applyDefaultPenalty 7 (fl 18100.72) (owing_with 0 480994.24400000001) = Inr u' \<and>
      debtBalance (wallet u') = 500000 \<and> status u' = Active \<and> blacklistedAt u' = None)"
  using auto_blacklist_once [where u = risky_user and now = 7 and baseAmount = 20000]
    auto_blacklist_once [where u = "owing_with 0 489245.606" and now = 7 and baseAmount = "fl 10242.28"]
    auto_blacklist_once [where u = "owing_with 0 480994.24400000001" and now = 7
      and baseAmount = "fl 18100.72"]
  by (simp add: risky_user_def owing_with_def user_eval js_eval rounding_rates rounding_lagos
      rounding_threshold)

text \<open>
  Claim C8, at a failing input: an account with 0.3 available and a debt of 0.3 repays
  0.1. Both checks pass and the repayment is saved, but available balance and debt are
  then 0.19999999999999998 and not 0.2: the amounts are subtracted as binary floating
  point numbers, although the schema stores them as \<^verbatim>\<open>Decimal128\<close> \<^emph>\<open>for financial
  precision (avoids floating-point errors)\<close>.
\<close>

theorem repayDebt_not_exact:
  "repayDebt 7 (fl 0.1) (owing_with 0.3 0.3)
     = Inr (fl 0.19999999999999998,
            (owing_with (fl 0.19999999999999998) (fl 0.19999999999999998))\<lparr>trustScore := 410\<rparr>) \<and>
   fl 0.19999999999999998 \<noteq> fl 0.2 \<and> (0.3::rat) - 0.1 = 0.2"
  by (simp add: owing_with_def risky_user_def user_eval js_eval rounding_rates
      rounding_repayment)

text \<open>
  Apart from the rounding, \<open>repayDebt\<close> does what the claim says. On a user that satisfies
  the schema's validators, it fails with \<open>InsufficientFunds\<close> when the amount exceeds the
  available balance (the first check), and with \<open>OverpaymentRejected\<close> when it does not
  but exceeds the debt. Otherwise it returns the remaining debt, takes the amount from
  the available balance and from the debt (each difference rounded), raises the trust
  score by 10 up to 850, and makes a Frozen account whose debt has reached 0 Active.
\<close>

lemma repayDebt_rounded:
  assumes "validateSync u"
  shows "(amt > parseFloat (availableBalance (wallet u))
            \<longrightarrow> repayDebt now amt u = Inl InsufficientFunds) \<and>
         (amt \<le> parseFloat (availableBalance (wallet u)) \<and> amt > parseFloat (debtBalance (wallet u))
            \<longrightarrow> repayDebt now amt u = Inl OverpaymentRejected) \<and>
         (amt \<le> parseFloat (availableBalance (wallet u)) \<and> amt \<le> parseFloat (debtBalance (wallet u))
            \<longrightarrow> (\<exists>u'. repayDebt now amt u
                         = Inr (js_sub (parseFloat (debtBalance (wallet u))) amt, u') \<and>
                  availableBalance (wallet u')
                    = js_sub (parseFloat (availableBalance (wallet u))) amt \<and>
                  debtBalance (wallet u') = js_sub (parseFloat (debtBalance (wallet u))) amt \<and>
                  vaultBalance (wallet u') = vaultBalance (wallet u) \<and>
                  trustScore u' = min 850 (trustScore u + 10) \<and>
                  (debtBalance (wallet u') = 0 \<and> status u = Frozen \<longrightarrow> status u' = Active)))"
  using assms
  by (auto simp: repayDebt_def save_user_def pre_save_def Let_def validateSync_def
      TRUST_SCORE_min_def TRUST_SCORE_max_def DEBT_BLACKLIST_THRESHOLD_def)

section \<open>The join validation\<close>



section \<open>The payout settlement\<close>

text \<open>
  Claim C1, at two failing inputs. In a circle with a pot of 30 where everybody has paid,
  the fee of the receipt is 0.44999999999999996 and not 0.45, the total pot times 0.015.
  In a circle with a pot of 430 the fee is 6.45 and the net payout 423.55, but the Bronze
  recipient has 84.71000000000001 withheld and 338.84000000000003 released, which add up
  to 423.55000000000007 as the program adds them, and exactly to neither that nor the
  net payout. The amounts are multiplied and subtracted as binary floating point
  numbers, although the schema stores them as \<^verbatim>\<open>Decimal128\<close> \<^emph>\<open>for financial precision
  (avoids floating-point errors)\<close>.
\<close>

theorem payout_conservation_not_exact:
  "fst (processCirclePayout 9 1
         (circle_db (round_of 10 30 [Paid, Paid, Paid]) (reserve_of 1000000 5000)))
     = Inr \<lparr>rc_recipient = ''Ada'', rc_grossAmount = 30,
         rc_platformFee = fl 0.44999999999999996, rc_netPayout = fl 29.55,
         rc_withheldInVault = fl 5.91, rc_availableNow = fl 23.64,
         rc_defaultsCovered = 0, rc_backstopLoan = 0, rc_nextTurn = 1\<rparr> \<and>
   fl 0.44999999999999996 \<noteq> fl 0.45 \<and> (30::rat) * 0.015 = 0.45 \<and>
   fst (processCirclePayout 9 1
         (circle_db (round_of 215 430 [Paid, Paid]) (reserve_of 1000000 5000)))
     = Inr \<lparr>rc_recipient = ''Ada'', rc_grossAmount = 430,
         rc_platformFee = fl 6.45, rc_netPayout = fl 423.55,
         rc_withheldInVault = fl 84.71000000000001, rc_availableNow = fl 338.84000000000003,
         rc_defaultsCovered = 0, rc_backstopLoan = 0, rc_nextTurn = 1\<rparr> \<and>
   js_add (fl 338.84000000000003) (fl 84.71000000000001) = fl 423.55000000000007 \<and>
   fl 423.55000000000007 \<noteq> fl 423.55 \<and>
   fl 338.84000000000003 + fl 84.71000000000001 \<noteq> fl 423.55"
  by (simp add: payout_eval example_defs js_eval rounding_rates rounding_pot_30
      rounding_pot_430)

text \<open>
  Claim C2, as the specification states it: in the circle of three members with a
  contribution of 10000 where two have paid, the Bronze recipient would net 19550, with
  3910 withheld and 15640 released. The payout does not do that: the reserve covers the
  shortfall, so the recipient nets the full pot less the fee, 29550, with 5910 withheld
  and 23640 released.
\<close>

theorem scenario_spec_values_counterexample:
  "fst (processCirclePayout 9 1 (scenario_db 1000000))
     = Inr \<lparr>rc_recipient = ''Ada'', rc_grossAmount = 30000, rc_platformFee = 450,
         rc_netPayout = 29550, rc_withheldInVault = 5910, rc_availableNow = 23640,
         rc_defaultsCovered = 1, rc_backstopLoan = 10000, rc_nextTurn = 1\<rparr> \<and>
   fst (processCirclePayout 9 1 (scenario_db 1000000))
     \<noteq> Inr \<lparr>rc_recipient = ''Ada'', rc_grossAmount = 30000, rc_platformFee = 450,
         rc_netPayout = 19550, rc_withheldInVault = 3910, rc_availableNow = 15640,
         rc_defaultsCovered = 1, rc_backstopLoan = 10000, rc_nextTurn = 1\<rparr>"
  by (simp add: payout_eval example_defs js_eval rounding_rates rounding_lagos)

text \<open>
  Claim C2, amended. For every active circle of three members with a contribution of
  10000 and a total pot of 30000 in which exactly two members are Paid, whose Bronze
  recipient and members exist and satisfy the schema's validators, over a reserve of at
  least 9550: the payout succeeds, the gross amount is 30000, the fee 450, the shortfall
  10000, one default is covered, the reserve is drawn for 10000 (its balance goes up by
  the fee and down by the shortfall, its total deployed up by the shortfall, each sum
  rounded as the program computes it), and the recipient nets 29550, of which 5910 is
  withheld in the vault and 23640 is released.
\<close>

theorem scenario_two_pay_one_defaults:
  assumes "circles d k = Some c" and "circle_status c = Circle_Active"
    and "length (members c) = 3" and "contributionAmount c = 10000" and "totalPot c = 30000"
    and "length (filter (\<lambda>m. paymentStatus m = Paid) (members c)) = 2"
    and "currentRecipient (populate_payoutOrder (users d) c) = Some rid"
    and "users d rid = Some r" and "userTier r = Bronze" and "validateSync r"
    and "list_all (\<lambda>m. \<exists>u. users d (member_user m) = Some u \<and> validateSync u) (members c)"
    and "9550 \<le> balance (findOne_or_new d)"
  shows "\<exists>rc d' res'. processCirclePayout now k d = (Inr rc, d') \<and>
           rc_grossAmount rc = 30000 \<and> rc_platformFee rc = 450 \<and> shortfall c = 10000 \<and>
           rc_defaultsCovered rc = 1 \<and> rc_backstopLoan rc = 10000 \<and>
           rc_netPayout rc = 29550 \<and> rc_withheldInVault rc = 5910 \<and>
           rc_availableNow rc = 23640 \<and>
           backstop d' = Some res' \<and>
           balance res' = js_sub (js_add (parseFloat (balance (findOne_or_new d))) 450) 10000 \<and>
           totalDeployed res' = js_add (parseFloat (totalDeployed (findOne_or_new d))) 10000"
proof -
  have sf: "shortfall c = 10000"
    using assms(4-6)
    by (simp add: shortfall_def expectedTotal_def actualCollected_def successfulPayments_def
        contribution_def js_eval)
  have fee: "platformFee c = 450"
    using assms(5)
    by (simp add: platformFee_def expectedTotal_def platformFeeRate_def js_eval rounding_rates
        rounding_lagos)
  have "9550 \<le> parseFloat (balance (findOne_or_new d))"
    using assms(12) by (rule parseFloat_ge_numeral) simp
  then have "fl 10000 \<le> fl (parseFloat (balance (findOne_or_new d)) + 450)"
    by (intro fl_mono) simp
  then have "\<not> (0 < shortfall c \<and>
               js_add (parseFloat (balance (findOne_or_new d))) (platformFee c) < shortfall c)"
    by (simp add: sf fee js_add_def fl_numeral)
  from payout_succeeds[OF assms(1,2,7,8) this assms(11,10), of now]
  obtain rc d' where run: "processCirclePayout now k d = (Inr rc, d')" by blast
  from payout_reserve[OF run assms(1)] obtain res' where
    res': "backstop d' = Some res'"
    "balance res' = js_sub (js_add (parseFloat (balance (findOne_or_new d))) 450) 10000"
    "totalDeployed res' = js_add (parseFloat (totalDeployed (findOne_or_new d))) 10000"
    "rc_backstopLoan rc = 10000"
    by (auto simp: sf fee)
  note rc = payout_receipt[OF run assms(1,7,8)]
  have net: "netPayout c = 29550"
    using assms(5) by (simp add: netPayout_def fee expectedTotal_def js_eval)
  have vault: "vaultAmount c r = 5910"
    using assms(9)
    by (simp add: vaultAmount_def net withholdingRate_def js_eval rounding_rates rounding_lagos)
  have vals: "rc_grossAmount rc = 30000" "rc_platformFee rc = 450" "rc_netPayout rc = 29550"
    "rc_withheldInVault rc = 5910" "rc_availableNow rc = 23640" "rc_defaultsCovered rc = 1"
    using assms(3,5,6)
    by (simp_all add: rc fee net vault expectedTotal_def availableAmount_def defaultCount_def
        successfulPayments_def js_eval)
  from run res' vals sf show ?thesis by simp
qed

theorem scenario_two_pay_one_defaults_witness:
  "\<exists>rc d' res'. processCirclePayout 9 1 (scenario_db 1000000) = (Inr rc, d') \<and>
           rc_grossAmount rc = 30000 \<and> rc_platformFee rc = 450 \<and>
           shortfall lagos_weekly = 10000 \<and>
           rc_defaultsCovered rc = 1 \<and> rc_backstopLoan rc = 10000 \<and>
           rc_netPayout rc = 29550 \<and> rc_withheldInVault rc = 5910 \<and>
           rc_availableNow rc = 23640 \<and>
           backstop d' = Some res' \<and> balance res' = 990450 \<and> totalDeployed res' = 10000"
proof -
  have res: "findOne_or_new (scenario_db 1000000)
              = \<lparr>balance = 1000000, totalDeployed = 0, activeLoans = []\<rparr>"
    by (simp add: findOne_or_new_def scenario_db_def)
  have "circles (scenario_db 1000000) 1 = Some lagos_weekly"
    and "circle_status lagos_weekly = Circle_Active"
    and "length (members lagos_weekly) = 3" and "contributionAmount lagos_weekly = 10000"
    and "totalPot lagos_weekly = 30000"
    and "length (filter (\<lambda>m. paymentStatus m = Paid) (members lagos_weekly)) = 2"
    and "currentRecipient (populate_payoutOrder (users (scenario_db 1000000)) lagos_weekly)
          = Some 1"
    and "users (scenario_db 1000000) 1 = Some ada" and "userTier ada = Bronze"
    and "validateSync ada"
    and "list_all (\<lambda>m. \<exists>u. users (scenario_db 1000000) (member_user m) = Some u \<and> validateSync u)
           (members lagos_weekly)"
    and "9550 \<le> balance (findOne_or_new (scenario_db 1000000))"
    by (simp_all add: example_defs currentRecipient_def populate_payoutOrder_def
        findOne_or_new_def validateSync_def TRUST_SCORE_min_def TRUST_SCORE_max_def)
  from scenario_two_pay_one_defaults [OF this, of 9] res show ?thesis
    by (simp add: js_eval)
qed

text \<open>
  Claim C3, at a failing input: the scenario's circle over a reserve of 9000. The
  shortfall of 10000 exceeds the reserve with this round's fee, 9450; the payout throws
  the insufficiency error, whose message ends in \<^verbatim>\<open>CirclePaused.\<close>, and nothing is
  written: the database is the one before, in which the circle is still Active, not
  Paused.
\<close>

theorem insufficient_reserve_leaves_circle_active:
  "processCirclePayout 9 1 (scenario_db 9000)
     = (Inl (ReserveInsufficient 10000 9450), scenario_db 9000) \<and>
   map_option circle_status (circles (snd (processCirclePayout 9 1 (scenario_db 9000))) 1)
     = Some Circle_Active"
  by (simp add: payout_eval example_defs js_eval rounding_rates rounding_lagos)

text \<open>
  In general the insufficiency error leaves the database as it was, and it comes from an
  active circle, which therefore stays active.
\<close>

lemma insufficient_reserve_no_write:
  assumes "processCirclePayout now k d = (Inl (ReserveInsufficient need have), d')"
  shows "d' = d \<and> (\<exists>c. circles d' k = Some c \<and> circle_status c = Circle_Active)"
  using payout_error_kinds[OF assms] by auto

text \<open>
  Claim C4, at two failing inputs. A circle with a contribution of 1000.1 and a pot of
  3000.3, in which one member of three has not paid, is settled over a reserve that holds
  5000 and has deployed 1000. The shortfall is 1000.1 and the fee 45.0045, so the reserve
  should hold 4044.9045 and have deployed 2000.1; it is saved with a balance of
  4044.9044999999996 and 2000.1000000000001 deployed. In a circle with a contribution of
  0.7 and a pot of 2.1 everybody has paid, but the program finds a shortfall of
  \<open>2\<^sup>-\<^sup>5\<^sup>1\<close>, draws it from the reserve, which held 1 and had deployed 1, and saves it
  with 1.0000000000000004 deployed and a balance of 1.0314999999999996, not 1.0315. The
  amounts are multiplied, added and subtracted as binary floating point numbers, although
  the schema stores them as \<^verbatim>\<open>Decimal128\<close> \<^emph>\<open>for financial precision (avoids floating-point
  errors)\<close>.
\<close>

theorem backstop_conservation_not_exact:
  "backstop (circle_db (round_of 1000.1 3000.3 [Paid, Paid, Pending]) (reserve_of 5000 1000))
     = Some \<lparr>balance = 5000, totalDeployed = 1000, activeLoans = []\<rparr> \<and>
   backstop (snd (processCirclePayout 9 1
       (circle_db (round_of 1000.1 3000.3 [Paid, Paid, Pending]) (reserve_of 5000 1000))))
     = Some \<lparr>balance = fl 4044.9044999999996, totalDeployed = fl 2000.1000000000001,
         activeLoans = [\<lparr>loan_circle = 1, amount = fl 1000.1, defaultedUser = 3,
                         recovered = False, createdAt = 9\<rparr>]\<rparr> \<and>
   fl 4044.9044999999996 \<noteq> fl 4044.9045 \<and> fl 2000.1000000000001 \<noteq> fl 2000.1 \<and>
   (5000::rat) - (3000.3 - 2 * 1000.1) + 3000.3 * 0.015 = 4044.9045 \<and>
   (1000::rat) + (3000.3 - 2 * 1000.1) = 2000.1 \<and>
   fst (processCirclePayout 9 1
       (circle_db (round_of 0.7 2.1 [Paid, Paid, Paid]) (reserve_of 1 1)))
     = Inr \<lparr>rc_recipient = ''Ada'', rc_grossAmount = fl 2.1, rc_platformFee = fl 0.0315,
         rc_netPayout = fl 2.0685000000000002, rc_withheldInVault = fl 0.41370000000000007,
         rc_availableNow = fl 1.6548000000000003, rc_defaultsCovered = 0,
         rc_backstopLoan = 1 / 2 ^ 51, rc_nextTurn = 1\<rparr> \<and>
   backstop (snd (processCirclePayout 9 1
       (circle_db (round_of 0.7 2.1 [Paid, Paid, Paid]) (reserve_of 1 1))))
     = Some \<lparr>balance = fl 1.0314999999999996, totalDeployed = fl 1.0000000000000004,
         activeLoans = []\<rparr> \<and>
   fl 1.0314999999999996 \<noteq> fl 1.0315 \<and> fl 1.0000000000000004 \<noteq> 1 \<and>
   (2.1::rat) - 3 * 0.7 = 0"
  by (simp add: payout_eval example_defs js_eval rounding_rates rounding_pot_3000_3
      rounding_pot_2_1)

text \<open>
  Claim C5, at a failing input: the last round of the last rotation of a circle of three,
  where member 2 has not paid and holds no vault balance. The payout succeeds, wraps the
  turn to 0, counts the third rotation and completes the circle; members 1 and 3, whose
  vaults are positive, lose the circle from their active circles, but member 2 keeps it:
  the removal sits under the test that the vault is positive.
\<close>

theorem completion_skips_empty_vault:
  "fst (processCirclePayout 9 1 last_round_db)
     = Inr \<lparr>rc_recipient = ''Bola'', rc_grossAmount = 30000, rc_platformFee = 450,
         rc_netPayout = 29550, rc_withheldInVault = 2955, rc_availableNow = 26595,
         rc_defaultsCovered = 1, rc_backstopLoan = 10000, rc_nextTurn = 0\<rparr> \<and>
   map_option circle_status (circles (snd (processCirclePayout 9 1 last_round_db)) 1)
     = Some Completed \<and>
   map_option cycleCount (circles (snd (processCirclePayout 9 1 last_round_db)) 1) = Some 3 \<and>
   map_option activeCircles (users last_round_db 2) = Some [1] \<and>
   map_option (vaultBalance \<circ> wallet) (users last_round_db 2) = Some 0 \<and>
   map_option activeCircles (users (snd (processCirclePayout 9 1 last_round_db)) 2) = Some [1] \<and>
   map_option activeCircles (users (snd (processCirclePayout 9 1 last_round_db)) 1) = Some [] \<and>
   map_option activeCircles (users (snd (processCirclePayout 9 1 last_round_db)) 3) = Some []"
  by (simp add: payout_eval example_defs js_eval rounding_rates rounding_lagos)

text \<open>
  Claim C10, at a failing input: the circle with a contribution of 1000.1 and a pot of
  3000.3 in which one member of three has not paid, over a reserve of 955.0955. The fee
  is 45.0045, so the balance with the fee is 1000.1, which is the shortfall, and the
  payout should succeed. The fee is indeed on the balance when the two are compared, but
  the program has computed the shortfall as 1000.1000000000001: it throws the
  insufficiency error and writes nothing. The amounts are multiplied, added and
  subtracted as binary floating point numbers, although the schema stores them as
  \<^verbatim>\<open>Decimal128\<close> \<^emph>\<open>for financial precision (avoids floating-point errors)\<close>.
\<close>

theorem sufficient_reserve_rejected:
  "processCirclePayout 9 1
     (circle_db (round_of 1000.1 3000.3 [Paid, Paid, Pending]) (reserve_of 955.0955 0))
     = (Inl (ReserveInsufficient (fl 1000.1000000000001) (fl 1000.1)),
        circle_db (round_of 1000.1 3000.3 [Paid, Paid, Pending]) (reserve_of 955.0955 0)) \<and>
   fl 1000.1 < fl 1000.1000000000001 \<and>
   (955.0955::rat) + 3000.3 * 0.015 = 3000.3 - 2 * 1000.1"
  by (simp add: payout_eval example_defs js_eval rounding_rates rounding_pot_3000_3)

text \<open>
  In general the fee is on the reserve's balance when the shortfall is compared with it.
  For an active circle whose recipient and members exist and satisfy the schema's
  validators and whose shortfall, as the program computes it, is positive: when the
  balance with the fee, as the program adds them, is below the shortfall, the payout
  throws the insufficiency error with these two numbers; otherwise it succeeds.
\<close>

lemma fee_credited_before_check:
  assumes "circles d k = Some c" and "circle_status c = Circle_Active"
    and "currentRecipient (populate_payoutOrder (users d) c) = Some rid"
    and "users d rid = Some r" and "validateSync r"
    and "list_all (\<lambda>m. \<exists>u. users d (member_user m) = Some u \<and> validateSync u) (members c)"
    and "0 < shortfall c"
  shows "(js_add (parseFloat (balance (findOne_or_new d))) (platformFee c) < shortfall c
            \<longrightarrow> processCirclePayout now k d
                  = (Inl (ReserveInsufficient (shortfall c)
                       (js_add (parseFloat (balance (findOne_or_new d))) (platformFee c))), d)) \<and>
         (shortfall c \<le> js_add (parseFloat (balance (findOne_or_new d))) (platformFee c)
            \<longrightarrow> (\<exists>rc d'. processCirclePayout now k d = (Inr rc, d')))"
proof (intro conjI impI)
  assume "js_add (parseFloat (balance (findOne_or_new d))) (platformFee c) < shortfall c"
  with assms(1-4,7) show "processCirclePayout now k d
      = (Inl (ReserveInsufficient (shortfall c)
           (js_add (parseFloat (balance (findOne_or_new d))) (platformFee c))), d)"
    by (rule payout_insufficient)
next
  assume "shortfall c \<le> js_add (parseFloat (balance (findOne_or_new d))) (platformFee c)"
  then have "\<not> (0 < shortfall c \<and>
               js_add (parseFloat (balance (findOne_or_new d))) (platformFee c) < shortfall c)"
    by simp
  from payout_succeeds[OF assms(1-4) this assms(6,5)]
  show "\<exists>rc d'. processCirclePayout now k d = (Inr rc, d')" .
qed

section \<open>The rotation\<close>

text \<open>
  Claim C7. From an active circle at turn 0 of rotation 0, whose payout order is not empty
  and refers to users that exist, as many consecutive rounds as the payout order is long,
  each a successful payout that finds every member Paid (with the contributions that make
  them so in between), leave the circle with \<open>cycleCount = 1\<close> and \<open>currentTurn = 0\<close>.
\<close>

theorem idempotent_rotation:
  assumes "circles d k = Some c" and "circle_status c = Circle_Active"
    and "currentTurn c = 0" and "cycleCount c = 0" and "payoutOrder c \<noteq> []"
    and "list_all (\<lambda>u. users d u \<noteq> None) (payoutOrder c)"
    and "length rounds = length (payoutOrder c)"
    and "fullRounds k rounds d = Some d'"
  shows "\<exists>c'. circles d' k = Some c' \<and> cycleCount c' = 1 \<and> currentTurn c' = 0"
proof -
  from assms(5,7) have "rounds \<noteq> []" by auto
  with fullRounds_rotation[OF assms(8,1,4) _ _ assms(6)] assms(3,7) show ?thesis by auto
qed

theorem idempotent_rotation_witness:
  "length pair_rounds = length (payoutOrder pair_circle) \<and>
   (\<exists>d' c'. fullRounds 1 pair_rounds pair_db = Some d' \<and> circles d' 1 = Some c' \<and>
      payoutOrder c' = [1, 2] \<and> cycleCount c' = 1 \<and> currentTurn c' = 0)"
proof -
  let ?d' = "the (fullRounds 1 pair_rounds pair_db)"
  have run: "fullRounds 1 pair_rounds pair_db = Some ?d'"
    by (simp add: payout_eval contribution_eval example_defs js_eval rounding_rates
        rounding_pair)
  have po: "payoutOrder (the (circles ?d' 1)) = [1, 2]"
    by (simp add: payout_eval contribution_eval example_defs js_eval rounding_rates
        rounding_pair)
  have c: "circles pair_db 1 = Some pair_circle"
    by (simp add: pair_db_def)
  have st: "circle_status pair_circle = Circle_Active" and ct: "currentTurn pair_circle = 0"
    and cc: "cycleCount pair_circle = 0" and ne: "payoutOrder pair_circle \<noteq> []"
    and refs: "list_all (\<lambda>u. users pair_db u \<noteq> None) (payoutOrder pair_circle)"
    and len: "length pair_rounds = length (payoutOrder pair_circle)"
    by (simp_all add: pair_circle_def pair_rounds_def pair_db_def)
  from idempotent_rotation [OF c st ct cc ne refs len run] obtain c' where
    c': "circles ?d' 1 = Some c'" "cycleCount c' = 1" "currentTurn c' = 0"
    by blast
  with po have "payoutOrder c' = [1, 2]" by simp
  with run c' len show ?thesis by blast
qed

end
